theory Spec2Isabelle
  imports Complex_Main
begin

section \<open>JavaScript strings\<close>

text \<open>
  A JavaScript string is modelled as a \<^typ>\<open>string\<close>, one \<^typ>\<open>char\<close> per code unit; the
  model therefore covers the texts whose code units are below 256. Lengths, indices and
  slices count code units, as \<^verbatim>\<open>length\<close>, \<^verbatim>\<open>slice\<close> and \<^verbatim>\<open>lastIndexOf\<close> do.
\<close>

text \<open>
  White space as \<^verbatim>\<open>String.prototype.trim\<close> and the regular expression class \<^verbatim>\<open>\s\<close>
  understand it, restricted to code units below 256: tab, line feed, vertical tab, form
  feed, carriage return, space and the no-break space.
\<close>

definition js_space :: "char \<Rightarrow> bool" where
  "js_space c = (c \<in> set [CHR 0x09, CHR 0x0A, CHR 0x0B, CHR 0x0C, CHR 0x0D, CHR 0x20, CHR 0xA0])"

definition trim :: "string \<Rightarrow> string" where
  "trim s = rev (dropWhile js_space (rev (dropWhile js_space s)))"

fun startsWith :: "string \<Rightarrow> string \<Rightarrow> bool" where
  "startsWith s [] = True"
| "startsWith [] (p # ps) = False"
| "startsWith (c # cs) (p # ps) = (c = p \<and> startsWith cs ps)"

text \<open>\<^verbatim>\<open>s.includes(sub)\<close>: \<open>sub\<close> occurs in \<open>s\<close> as a contiguous run of code units.\<close>

fun js_includes :: "string \<Rightarrow> string \<Rightarrow> bool" where
  "js_includes [] sub = (sub = [])"
| "js_includes (c # cs) sub = (startsWith (c # cs) sub \<or> js_includes cs sub)"

text \<open>
  \<^verbatim>\<open>s.split(sep)\<close> for a separator of one code unit. The result is never empty (the empty
  string splits into one empty piece), so the second branch of the \<open>case\<close> is never taken.
\<close>

fun js_split :: "string \<Rightarrow> char \<Rightarrow> string list" where
  "js_split [] sep = [[]]"
| "js_split (c # cs) sep =
     (if c = sep then [] # js_split cs sep
      else (case js_split cs sep of l # ls \<Rightarrow> (c # l) # ls | [] \<Rightarrow> [[c]]))"

text \<open>\<^verbatim>\<open>parts.join(sep)\<close> on an array of strings.\<close>

fun join :: "string list \<Rightarrow> string \<Rightarrow> string" where
  "join [] sep = []"
| "join [p] sep = p"
| "join (p # q # ps) sep = p @ sep @ join (q # ps) sep"

text \<open>Decimal text of a non-negative integer, as a template literal prints it.\<close>

definition digit :: "nat \<Rightarrow> char" where
  "digit d = ''0123456789'' ! d"

function show_nat :: "nat \<Rightarrow> string" where
  "show_nat n = (if n < 10 then [digit n] else show_nat (n div 10) @ [digit (n mod 10)])"
  by pat_completeness auto
termination
proof (relation "measure id")
  show "wf (measure id)" by (rule wf_measure)
next
  fix n :: nat
  assume "\<not> n < 10"
  then have "n div 10 < n" by (intro div_less_dividend) linarith+
  then show "(n div 10, n) \<in> measure id" by (simp only: in_measure id_apply)
qed

declare show_nat.simps [simp del]


section \<open>The diff extractor (git-analyzer.ts)\<close>

text \<open>
  The interface \<^verbatim>\<open>GitDiff\<close> of types.ts; \<^verbatim>\<open>fileSize\<close> is optional. The field
  \<^verbatim>\<open>file\<close> is \<open>diff_file\<close> here.
\<close>

record GitDiff =
  diff_file :: string
  additions :: nat
  deletions :: nat
  changes :: string
  isNew :: bool
  isDeleted :: bool
  isBinary :: bool
  fileSize :: "nat option"

text \<open>The optional fourth argument \<^verbatim>\<open>stats\<close> of \<^verbatim>\<open>parseSingleFileDiff\<close>.\<close>

record DiffStats =
  stat_additions :: nat
  stat_deletions :: nat
  stat_isNew :: bool
  stat_isDeleted :: bool

text \<open>
  The statistics that \<^verbatim>\<open>getCommitDiff\<close> builds from one entry of the diff summary. The
  entry's \<^verbatim>\<open>insertions\<close> and \<^verbatim>\<open>deletions\<close> may be missing (binary entries carry none),
  whence \<^verbatim>\<open>fileStats.insertions || 0\<close>.
\<close>

definition or_zero :: "nat option \<Rightarrow> nat" where
  "or_zero v = (case v of None \<Rightarrow> 0 | Some n \<Rightarrow> n)"

definition commitStats :: "nat option \<Rightarrow> nat option \<Rightarrow> DiffStats" where
  "commitStats insertions dels =
     \<lparr> stat_additions = or_zero insertions,
       stat_deletions = or_zero dels,
       stat_isNew = (or_zero insertions > 0 \<and> or_zero dels = 0),
       stat_isDeleted = (or_zero insertions = 0 \<and> or_zero dels > 0) \<rparr>"

text \<open>
  The body of the loop \<^verbatim>\<open>for (const line of lines)\<close>: two independent tests, each bumping
  one of the counters \<^verbatim>\<open>additions\<close> and \<^verbatim>\<open>deletions\<close>.
\<close>

definition count_line :: "string \<Rightarrow> nat \<times> nat \<Rightarrow> nat \<times> nat" where
  "count_line line counters =
     (let (adds, dels) = counters;
          adds' = (if startsWith line ''+'' \<and> \<not> startsWith line ''+++'' then adds + 1 else adds);
          dels' = (if startsWith line ''-'' \<and> \<not> startsWith line ''---'' then dels + 1 else dels)
      in (adds', dels'))"

text \<open>
  \<^verbatim>\<open>parseSingleFileDiff(fileName, diffText, isStaged, stats?)\<close>. The file system is the
  parameter \<open>fsSize\<close>: \<open>fsSize fileName\<close> is \<open>Some n\<close> when \<^verbatim>\<open>existsSync\<close> finds the file
  under the repository path and \<^verbatim>\<open>statSync\<close> reports \<open>n\<close> bytes, and \<open>None\<close> when the file
  does not exist or either call throws (the source swallows the exception). The result
  \<open>None\<close> is the source's \<^verbatim>\<open>null\<close>.
\<close>

definition parseSingleFileDiff ::
  "(string \<Rightarrow> nat option) \<Rightarrow> string \<Rightarrow> string \<Rightarrow> bool \<Rightarrow> DiffStats option \<Rightarrow> GitDiff option" where
  "parseSingleFileDiff fsSize fileName diffText isStaged stats =
     (if trim diffText = [] then None
      else
        let isBinary = (js_includes diffText ''Binary files'' \<or> js_includes diffText ''differ'');
            (additions, deletions, isNew, isDeleted) =
              (case stats of
                 Some st \<Rightarrow> (stat_additions st, stat_deletions st, stat_isNew st, stat_isDeleted st)
               | None \<Rightarrow>
                   let lines = js_split diffText (CHR 0x0A);
                       isNew = list_ex (\<lambda>line. startsWith line ''new file mode'') lines;
                       isDeleted = list_ex (\<lambda>line. startsWith line ''deleted file mode'') lines;
                       (additions, deletions) = fold count_line lines (0, 0)
                   in (additions, deletions, isNew, isDeleted));
            fileSize = (if \<not> isDeleted then fsSize fileName else None)
        in Some \<lparr> diff_file = fileName, additions = additions, deletions = deletions,
                    changes = diffText, isNew = isNew, isDeleted = isDeleted,
                    isBinary = isBinary, fileSize = fileSize \<rparr>)"


section \<open>JavaScript values and exceptions\<close>

text \<open>
  The values that \<^verbatim>\<open>JSON.parse\<close> and the HTTP client hand to the program. A number is
  kept as its lexeme. An object is the list of its own properties; where a key is
  repeated the last one counts, as in \<^verbatim>\<open>JSON.parse\<close>. The value \<^verbatim>\<open>undefined\<close> is \<open>None\<close> of
  \<open>json option\<close>.
\<close>

datatype json =
    JNull
  | JBool bool
  | JNumber string
  | JString string
  | JArray "json list"
  | JObject "(string \<times> json) list"

text \<open>
  A thrown value: its class, its \<^verbatim>\<open>code\<close> property (set by the HTTP client, for example
  \<^verbatim>\<open>ECONNABORTED\<close> on a timeout) and its \<^verbatim>\<open>message\<close>. The messages of the engine's own
  \<^verbatim>\<open>TypeError\<close>s follow V8's wording; no property below depends on them.
\<close>

datatype exn_class = SyntaxError | TypeError | PlainError | AxiosError

datatype exn = Exn (exn_class: exn_class) (exn_code: "string option") (exn_message: string)

definition thenE :: "exn + 'a \<Rightarrow> ('a \<Rightarrow> exn + 'b) \<Rightarrow> exn + 'b" where
  "thenE m f = (case m of Inl e \<Rightarrow> Inl e | Inr x \<Rightarrow> f x)"

text \<open>\<^verbatim>\<open>try { body } catch (error) { handler }\<close>.\<close>

definition try_catch :: "exn + 'a \<Rightarrow> (exn \<Rightarrow> exn + 'a) \<Rightarrow> exn + 'a" where
  "try_catch body handler = (case body of Inl e \<Rightarrow> handler e | Inr x \<Rightarrow> Inr x)"

text \<open>\<^verbatim>\<open>xs.map(f)\<close> and \<^verbatim>\<open>xs.some(f)\<close> for a callback that may throw.\<close>

fun map_exn :: "('a \<Rightarrow> exn + 'b) \<Rightarrow> 'a list \<Rightarrow> exn + 'b list" where
  "map_exn f [] = Inr []"
| "map_exn f (x # xs) = thenE (f x) (\<lambda>y. thenE (map_exn f xs) (\<lambda>ys. Inr (y # ys)))"

fun some_exn :: "('a \<Rightarrow> exn + bool) \<Rightarrow> 'a list \<Rightarrow> exn + bool" where
  "some_exn f [] = Inr False"
| "some_exn f (x # xs) = thenE (f x) (\<lambda>b. if b then Inr True else some_exn f xs)"

definition quote :: "string \<Rightarrow> string" where
  "quote s = [CHR 0x27] @ s @ [CHR 0x27]"

text \<open>
  Reading the property \<open>name\<close> of a value, for the names the program reads (\<^verbatim>\<open>models\<close>,
  \<^verbatim>\<open>name\<close>, \<^verbatim>\<open>response\<close>, \<^verbatim>\<open>reviews\<close>, \<^verbatim>\<open>severity\<close>, \<^verbatim>\<open>line\<close>, \<^verbatim>\<open>message\<close>,
  \<^verbatim>\<open>suggestion\<close>, \<^verbatim>\<open>category\<close>): none of them is a property of a prototype, so on a
  string, a number, a boolean or an array the result is \<^verbatim>\<open>undefined\<close>, and on \<^verbatim>\<open>null\<close>
  and \<^verbatim>\<open>undefined\<close> the read throws.
\<close>

definition get_prop :: "json option \<Rightarrow> string \<Rightarrow> exn + json option" where
  "get_prop v name =
     (case v of
        None \<Rightarrow> Inl (Exn TypeError None
                 (''Cannot read properties of undefined (reading '' @ quote name @ '')''))
      | Some JNull \<Rightarrow> Inl (Exn TypeError None
                 (''Cannot read properties of null (reading '' @ quote name @ '')''))
      | Some (JObject kvs) \<Rightarrow> Inr (map_of (rev kvs) name)
      | Some _ \<Rightarrow> Inr None)"

text \<open>
  Truthiness. A number is falsy when it is zero: here, when its lexeme has no non-zero
  digit before the exponent (a lexeme whose value underflows to zero is not covered).
\<close>

definition num_zero :: "string \<Rightarrow> bool" where
  "num_zero lexeme =
     list_all (\<lambda>c. c \<in> set ''-0.'') (takeWhile (\<lambda>c. c \<noteq> CHR ''e'' \<and> c \<noteq> CHR ''E'') lexeme)"

fun js_truthy :: "json \<Rightarrow> bool" where
  "js_truthy JNull = False"
| "js_truthy (JBool b) = b"
| "js_truthy (JNumber lexeme) = (\<not> num_zero lexeme)"
| "js_truthy (JString s) = (s \<noteq> [])"
| "js_truthy (JArray xs) = True"
| "js_truthy (JObject kvs) = True"

text \<open>
  \<^verbatim>\<open>String(v)\<close>, as \<^verbatim>\<open>Array.prototype.join\<close> applies it to the elements of an array
  (\<^verbatim>\<open>null\<close> and \<^verbatim>\<open>undefined\<close> elements give the empty string). A number prints as its
  lexeme.
\<close>

fun js_toString :: "json \<Rightarrow> string" where
  "js_toString JNull = ''null''"
| "js_toString (JBool b) = (if b then ''true'' else ''false'')"
| "js_toString (JNumber lexeme) = lexeme"
| "js_toString (JString s) = s"
| "js_toString (JArray xs) = join (map (\<lambda>x. if x = JNull then [] else js_toString x) xs) '',''"
| "js_toString (JObject kvs) = ''[object Object]''"

definition join_element :: "json option \<Rightarrow> string" where
  "join_element v = (case v of None \<Rightarrow> [] | Some JNull \<Rightarrow> [] | Some x \<Rightarrow> js_toString x)"


section \<open>The model client and the response parser (ai-reviewer.ts)\<close>

text \<open>
  The source file holds two versions of the class \<^verbatim>\<open>AIReviewer\<close>, one after the other.
  The model follows the first, the one with \<^verbatim>\<open>extractJSON\<close>, \<^verbatim>\<open>fixIncompleteJSON\<close> and
  \<^verbatim>\<open>truncateToValidJSON\<close>. (The second differs in \<^verbatim>\<open>reviewSingleFile\<close>, where it sends
  \<^verbatim>\<open>maxTokens\<close> as it is and no stop marks, in the prompt, and in \<^verbatim>\<open>parseAIResponse\<close>,
  which has neither a second kind of fence nor a repair step.)
\<close>

text \<open>
  The interfaces of types.ts. \<^verbatim>\<open>ReviewResult.file\<close> is \<open>result_file\<close> here. The parser
  copies \<^verbatim>\<open>line\<close>, \<^verbatim>\<open>message\<close>, \<^verbatim>\<open>suggestion\<close> and \<^verbatim>\<open>category\<close> from the parsed reply
  without checking their types, so these fields hold JavaScript values.

  The configuration is not validated beyond \<^verbatim>\<open>modelUrl\<close> and \<^verbatim>\<open>modelName\<close>, so
  \<^verbatim>\<open>maxTokens\<close>, \<^verbatim>\<open>temperature\<close> and \<^verbatim>\<open>timeout\<close> are any finite numbers: negative and
  fractional values included (\<^verbatim>\<open>NaN\<close> is falsy like zero and is not a value of its own
  here). The sizes are counts of bytes.
\<close>

record ReviewConfig =
  modelUrl :: string
  modelName :: string
  maxTokens :: real
  temperature :: real
  includePatterns :: "string list"
  excludePatterns :: "string list"
  reviewPrompt :: string
  maxFileSize :: "nat option"
  timeout :: "real option"

datatype severity = SevError | SevWarning | SevInfo

record ReviewResult =
  result_file :: string
  severity :: severity
  line :: "json option"
  message :: json
  suggestion :: "json option"
  category :: "json option"

record HealthCheck =
  isHealthy :: bool
  error :: "string option"

text \<open>
  The request that \<^verbatim>\<open>reviewSingleFile\<close> posts: the URL, the fields of the body
  (\<^verbatim>\<open>model\<close>, \<^verbatim>\<open>prompt\<close>, \<^verbatim>\<open>stream\<close>, and \<^verbatim>\<open>temperature\<close>, \<^verbatim>\<open>num_predict\<close> and \<^verbatim>\<open>stop\<close>
  of \<^verbatim>\<open>options\<close>) and the \<^verbatim>\<open>timeout\<close> of the client's settings.
\<close>

record GenerateRequest =
  req_url :: string
  req_model :: string
  req_prompt :: string
  req_stream :: bool
  req_temperature :: real
  req_num_predict :: real
  req_stop :: "string list"
  req_timeout :: real

text \<open>
  What the program takes from its run-time environment:
  \<^item> \<open>JSON_parse text\<close> is \<open>Inr v\<close> when \<^verbatim>\<open>JSON.parse(text)\<close> returns \<open>v\<close> and \<open>Inl m\<close> when
    it throws a \<^verbatim>\<open>SyntaxError\<close> with message \<open>m\<close>;
  \<^item> \<open>RegExp_test pattern s\<close> is \<^verbatim>\<open>new RegExp(pattern).test(s)\<close>, which throws on a
    pattern that does not compile;
  \<^item> \<open>axios_get url timeout\<close> and \<open>axios_post request\<close> give the \<^verbatim>\<open>data\<close> of the response,
    or the error the client rejects with;
  \<^item> the three pictographs that start the labels of the prompt lie outside the 8-bit
    characters and are given as strings.
\<close>

record runtime =
  JSON_parse :: "string \<Rightarrow> string + json"
  RegExp_test :: "string \<Rightarrow> string \<Rightarrow> exn + bool"
  axios_get :: "string \<Rightarrow> real \<Rightarrow> exn + json option"
  axios_post :: "GenerateRequest \<Rightarrow> exn + json option"
  glyph_new :: string
  glyph_deleted :: string
  glyph_changes :: string

subsection \<open>checkHealth\<close>

text \<open>
  \<^verbatim>\<open>model.name.includes(base)\<close>: on a string the substring test, on an array the
  membership test of \<^verbatim>\<open>Array.prototype.includes\<close>; reading \<^verbatim>\<open>includes\<close> of \<^verbatim>\<open>undefined\<close>
  or \<^verbatim>\<open>null\<close> throws, and on any other value \<^verbatim>\<open>includes\<close> is not a function.
\<close>

definition name_includes :: "json option \<Rightarrow> string \<Rightarrow> exn + bool" where
  "name_includes name base =
     (case name of
        None \<Rightarrow> Inl (Exn TypeError None
                 (''Cannot read properties of undefined (reading '' @ quote ''includes'' @ '')''))
      | Some JNull \<Rightarrow> Inl (Exn TypeError None
                 (''Cannot read properties of null (reading '' @ quote ''includes'' @ '')''))
      | Some (JString s) \<Rightarrow> Inr (js_includes s base)
      | Some (JArray xs) \<Rightarrow> Inr (JString base \<in> set xs)
      | Some _ \<Rightarrow> Inl (Exn TypeError None ''model.name.includes is not a function''))"

text \<open>\<^verbatim>\<open>this.config.modelName.split(':')[0]\<close>.\<close>

definition baseName :: "ReviewConfig \<Rightarrow> string" where
  "baseName config = (case js_split (modelName config) (CHR '':'') of b # bs \<Rightarrow> b | [] \<Rightarrow> [])"

text \<open>\<^verbatim>\<open>x || d\<close> on an optional number.\<close>

definition or_default :: "real option \<Rightarrow> real \<Rightarrow> real" where
  "or_default v d = (case v of None \<Rightarrow> d | Some n \<Rightarrow> if n = 0 then d else n)"

definition checkHealth :: "runtime \<Rightarrow> ReviewConfig \<Rightarrow> exn + HealthCheck" where
  "checkHealth rt config =
     try_catch
       (thenE (axios_get rt (modelUrl config @ ''/api/tags'') (or_default (timeout config) 5000))
         (\<lambda>data. thenE (get_prop data ''models'')
           (\<lambda>m. let models = (case m of
                                None \<Rightarrow> JArray []
                              | Some v \<Rightarrow> if js_truthy v then v else JArray [])
                in case models of
                     JArray ms \<Rightarrow>
                       thenE (some_exn (\<lambda>model. thenE (get_prop (Some model) ''name'')
                                         (\<lambda>name. name_includes name (baseName config))) ms)
                         (\<lambda>hasModel.
                            if \<not> hasModel then
                              thenE (map_exn (\<lambda>m. get_prop (Some m) ''name'') ms)
                                (\<lambda>names. Inr \<lparr> isHealthy = False,
                                   error = Some (''Model '' @ modelName config
                                     @ '' not found. Available models: ''
                                     @ join (map join_element names) '', '') \<rparr>)
                            else Inr \<lparr> isHealthy = True, error = None \<rparr>)
                   | _ \<Rightarrow> Inl (Exn TypeError None ''models.some is not a function''))))
       (\<lambda>error. Inr \<lparr> isHealthy = False,
                      error = Some (''Ollama server unavailable: '' @ exn_message error) \<rparr>)"

subsection \<open>extractJSON\<close>

text \<open>
  The three regular expressions of \<^verbatim>\<open>extractJSON\<close>, by what a backtracking matcher finds.

  \<^verbatim>\<open>/```json\s*([\s\S]*?)\s*```/\<close> and \<^verbatim>\<open>/```\s*([\s\S]*?)\s*```/\<close>: at the first
  position where the opening fence stands and a match exists, after the white space that
  follows the fence, the group is the shortest text after which optional white space and
  a closing fence follow. \<open>lazy_until_fence\<close> extends the group one code unit at a time;
  \<open>match_fence\<close> tries the start positions from the left and returns the group.
\<close>

fun lazy_until_fence :: "string \<Rightarrow> string \<Rightarrow> string option" where
  "lazy_until_fence acc [] = None"
| "lazy_until_fence acc (c # cs) =
     (if startsWith (dropWhile js_space (c # cs)) ''```'' then Some (rev acc)
      else lazy_until_fence (c # acc) cs)"

fun match_fence :: "string \<Rightarrow> string \<Rightarrow> string option" where
  "match_fence fence [] = None"
| "match_fence fence (c # cs) =
     (if startsWith (c # cs) fence then
        (case lazy_until_fence [] (dropWhile js_space (drop (length fence) (c # cs))) of
           Some captured \<Rightarrow> Some captured
         | None \<Rightarrow> match_fence fence cs)
      else match_fence fence cs)"

text \<open>
  \<^verbatim>\<open>/\{[\s\S]*\}/\<close>: from the first opening brace to the last closing brace after it;
  the result is the whole match.
\<close>

definition match_braces :: "string \<Rightarrow> string option" where
  "match_braces s =
     (let from_brace = dropWhile (\<lambda>c. c \<noteq> CHR ''{'') s;
          matched = rev (dropWhile (\<lambda>c. c \<noteq> CHR ''}'') (rev from_brace))
      in if matched = [] then None else Some matched)"

text \<open>
  \<^verbatim>\<open>response.trim()\<close> on the argument, which the caller reads from the reply without
  checking it: it throws unless the argument is a string.
\<close>

definition trim_response :: "json option \<Rightarrow> exn + string" where
  "trim_response response =
     (case response of
        None \<Rightarrow> Inl (Exn TypeError None
                 (''Cannot read properties of undefined (reading '' @ quote ''trim'' @ '')''))
      | Some JNull \<Rightarrow> Inl (Exn TypeError None
                 (''Cannot read properties of null (reading '' @ quote ''trim'' @ '')''))
      | Some (JString s) \<Rightarrow> Inr (trim s)
      | Some _ \<Rightarrow> Inl (Exn TypeError None ''response.trim is not a function''))"

definition extractJSON :: "json option \<Rightarrow> exn + string" where
  "extractJSON response =
     thenE (trim_response response)
       (\<lambda>jsonText0.
          let jsonText1 =
                (if js_includes jsonText0 ''```json'' then
                   (case match_fence ''```json'' jsonText0 of Some captured \<Rightarrow> captured | None \<Rightarrow> jsonText0)
                 else if js_includes jsonText0 ''```'' then
                   (case match_fence ''```'' jsonText0 of Some captured \<Rightarrow> captured | None \<Rightarrow> jsonText0)
                 else jsonText0);
              jsonText2 =
                (if \<not> startsWith jsonText1 ''{'' then
                   (case match_braces jsonText1 of Some whole \<Rightarrow> whole | None \<Rightarrow> jsonText1)
                 else jsonText1)
          in Inr (trim jsonText2))"

subsection \<open>fixIncompleteJSON and truncateToValidJSON\<close>

text \<open>
  The loop \<^verbatim>\<open>for (let i = jsonText.length - 1; i >= 0; i--)\<close>; the third argument is
  \<open>i + 1\<close>, so the loop ends at \<open>0\<close>.
\<close>

fun truncate_loop :: "(string \<Rightarrow> string + json) \<Rightarrow> string \<Rightarrow> nat \<Rightarrow> string" where
  "truncate_loop parse jsonText 0 = ''{\"reviews\":[]}''"
| "truncate_loop parse jsonText (Suc i) =
     (if jsonText ! i = CHR ''}'' \<or> jsonText ! i = CHR '']'' then
        (let candidate = take (i + 1) jsonText
         in case parse candidate of
              Inr v \<Rightarrow> candidate
            | Inl e \<Rightarrow> truncate_loop parse jsonText i)
      else truncate_loop parse jsonText i)"

definition truncateToValidJSON :: "runtime \<Rightarrow> string \<Rightarrow> string" where
  "truncateToValidJSON rt jsonText = truncate_loop (JSON_parse rt) jsonText (length jsonText)"

text \<open>\<^verbatim>\<open>s.lastIndexOf(c)\<close>, which is \<open>-1\<close> when \<open>c\<close> does not occur.\<close>

definition lastIndexOf :: "string \<Rightarrow> char \<Rightarrow> int" where
  "lastIndexOf s c = int (length (dropWhile (\<lambda>x. x \<noteq> c) (rev s))) - 1"

definition fixIncompleteJSON :: "runtime \<Rightarrow> string \<Rightarrow> string" where
  "fixIncompleteJSON rt jsonText =
     (case JSON_parse rt jsonText of
        Inr v \<Rightarrow> jsonText
      | Inl msg \<Rightarrow>
          if js_includes msg ''Unterminated string'' then
            (let lastQuoteIndex = lastIndexOf jsonText (CHR 0x22);
                 afterLastQuote = drop (nat (lastQuoteIndex + 1)) jsonText
             in if afterLastQuote \<noteq> [] \<and> \<not> js_includes afterLastQuote [CHR 0x22]
                    \<and> (js_includes afterLastQuote ''}'' \<or> js_includes afterLastQuote '']'')
                then
                  (let fixedJson = take (nat (lastQuoteIndex + 1)) jsonText @ [CHR 0x22] @ afterLastQuote
                   in case JSON_parse rt fixedJson of
                        Inr v \<Rightarrow> fixedJson
                      | Inl e \<Rightarrow> truncateToValidJSON rt jsonText)
                else truncateToValidJSON rt jsonText)
          else truncateToValidJSON rt jsonText)"

subsection \<open>parseAIResponse\<close>

text \<open>\<^verbatim>\<open>validateSeverity\<close>, on the value read from the reply.\<close>

definition validateSeverity :: "json option \<Rightarrow> severity" where
  "validateSeverity sev =
     (if sev = Some (JString ''error'') then SevError
      else if sev = Some (JString ''warning'') then SevWarning
      else if sev = Some (JString ''info'') then SevInfo
      else SevInfo)"

text \<open>\<^verbatim>\<open>review.message || 'No description'\<close>.\<close>

definition message_or_default :: "json option \<Rightarrow> json" where
  "message_or_default m =
     (case m of
        None \<Rightarrow> JString ''No description''
      | Some v \<Rightarrow> if js_truthy v then v else JString ''No description'')"

text \<open>The callback of \<^verbatim>\<open>parsed.reviews.map\<close>.\<close>

definition toReviewResult :: "string \<Rightarrow> json \<Rightarrow> exn + ReviewResult" where
  "toReviewResult fileName review =
     thenE (get_prop (Some review) ''severity'') (\<lambda>sev.
     thenE (get_prop (Some review) ''line'') (\<lambda>ln.
     thenE (get_prop (Some review) ''message'') (\<lambda>msg.
     thenE (get_prop (Some review) ''suggestion'') (\<lambda>sug.
     thenE (get_prop (Some review) ''category'') (\<lambda>cat.
       Inr \<lparr> result_file = fileName, severity = validateSeverity sev, line = ln,
             message = message_or_default msg, suggestion = sug, category = cat \<rparr>)))))"

text \<open>The \<^verbatim>\<open>try\<close> block of \<^verbatim>\<open>parseAIResponse\<close>, and the function with its \<^verbatim>\<open>catch\<close>.\<close>

definition parseAIResponse_try :: "runtime \<Rightarrow> string \<Rightarrow> json option \<Rightarrow> exn + ReviewResult list" where
  "parseAIResponse_try rt fileName response =
     thenE (extractJSON response) (\<lambda>extracted.
       let jsonText = fixIncompleteJSON rt extracted
       in thenE (case JSON_parse rt jsonText of
                   Inl msg \<Rightarrow> Inl (Exn SyntaxError None msg)
                 | Inr v \<Rightarrow> Inr v) (\<lambda>parsed.
          thenE (get_prop (Some parsed) ''reviews'') (\<lambda>reviews.
            case reviews of
              Some (JArray rs) \<Rightarrow> map_exn (toReviewResult fileName) rs
            | _ \<Rightarrow> Inl (Exn PlainError None ''Invalid AI response format''))))"

definition parseAIResponse :: "runtime \<Rightarrow> string \<Rightarrow> json option \<Rightarrow> exn + ReviewResult list" where
  "parseAIResponse rt fileName response =
     try_catch (parseAIResponse_try rt fileName response)
       (\<lambda>error. Inr [\<lparr> result_file = fileName, severity = SevInfo, line = None,
                        message = JString ''AI analysis failed - model response was malformed'',
                        suggestion = None, category = Some (JString ''general'') \<rparr>])"

subsection \<open>buildPrompt and reviewSingleFile\<close>

definition prompt_format :: string where
  "prompt_format = join
     [''IMPORTANT: Reply ONLY with valid JSON. No additional text before or after. Format:'',
      ''{'',
      ''  \"reviews\": ['',
      ''    {'',
      ''      \"severity\": \"error\",'',
      ''      \"line\": 123,'',
      ''      \"message\": \"Short problem description\",'',
      ''      \"suggestion\": \"How to fix it\",'',
      ''      \"category\": \"bugs\"'',
      ''    }'',
      ''  ]'',
      ''}'',
      '''',
      ''If no issues found, return: {\"reviews\":[]}'',
      ''Keep messages short and avoid special characters in strings.''] [CHR 0x0A]"

definition buildPrompt :: "runtime \<Rightarrow> ReviewConfig \<Rightarrow> GitDiff \<Rightarrow> string" where
  "buildPrompt rt config diff =
     (let fileInfo = join (filter (\<lambda>s. s \<noteq> [])
            [''File: '' @ diff_file diff,
             (if isNew diff then glyph_new rt @ '' NEW FILE'' else []),
             (if isDeleted diff then glyph_deleted rt @ '' DELETED FILE'' else []),
             glyph_changes rt @ '' Changes: +'' @ show_nat (additions diff)
               @ '' -'' @ show_nat (deletions diff)]) [CHR 0x0A]
      in join
           [reviewPrompt config,
            '''',
            fileInfo,
            '''',
            ''Changes:'',
            ''```diff'',
            take 10000 (changes diff) @ '' ''
              @ (if length (changes diff) > 10000 then [CHR 0x0A] @ ''... (file truncated)'' else []),
            ''```'',
            '''',
            prompt_format] [CHR 0x0A])"

text \<open>
  The size test, written twice in the source (in \<^verbatim>\<open>reviewSingleFile\<close> and in the review
  command): \<^verbatim>\<open>config.maxFileSize && diff.fileSize && diff.fileSize > config.maxFileSize\<close>.
\<close>

definition exceedsMaxFileSize :: "ReviewConfig \<Rightarrow> GitDiff \<Rightarrow> bool" where
  "exceedsMaxFileSize config diff =
     (case maxFileSize config of
        None \<Rightarrow> False
      | Some limit \<Rightarrow>
          limit \<noteq> 0 \<and>
          (case fileSize diff of None \<Rightarrow> False | Some bytes \<Rightarrow> bytes \<noteq> 0 \<and> bytes > limit))"

definition generateRequest :: "runtime \<Rightarrow> ReviewConfig \<Rightarrow> GitDiff \<Rightarrow> GenerateRequest" where
  "generateRequest rt config diff =
     \<lparr> req_url = modelUrl config @ ''/api/generate'',
       req_model = modelName config,
       req_prompt = buildPrompt rt config diff,
       req_stream = False,
       req_temperature = temperature config,
       req_num_predict = min (if maxTokens config = 0 then 2048 else maxTokens config) 2048,
       req_stop = [[CHR 0x0A, CHR 0x0A] @ ''---'', ''```'' @ [CHR 0x0A, CHR 0x0A]],
       req_timeout = or_default (timeout config) 30000 \<rparr>"

text \<open>
  The two results that \<^verbatim>\<open>reviewSingleFile\<close> makes up without asking the model. The first
  is only built when both sizes are present, so the \<open>None\<close> cases inside the message are
  never taken.
\<close>

definition tooLargeResult :: "ReviewConfig \<Rightarrow> GitDiff \<Rightarrow> ReviewResult" where
  "tooLargeResult config diff =
     \<lparr> result_file = diff_file diff, severity = SevWarning, line = None,
       message = JString (''File too large for analysis (''
                   @ show_nat (case fileSize diff of None \<Rightarrow> 0 | Some bytes \<Rightarrow> bytes)
                   @ '' bytes, limit: ''
                   @ show_nat (case maxFileSize config of None \<Rightarrow> 0 | Some limit \<Rightarrow> limit)
                   @ '' bytes)''),
       suggestion = None, category = None \<rparr>"

definition binarySkippedResult :: "GitDiff \<Rightarrow> ReviewResult" where
  "binarySkippedResult diff =
     \<lparr> result_file = diff_file diff, severity = SevInfo, line = None,
       message = JString ''Binary file skipped'', suggestion = None, category = None \<rparr>"

text \<open>
  \<^verbatim>\<open>reviewSingleFile\<close> returns the requests it has posted (none or one) together with its
  result or the exception it throws.
\<close>

definition reviewSingleFile ::
  "runtime \<Rightarrow> ReviewConfig \<Rightarrow> GitDiff \<Rightarrow> GenerateRequest list \<times> (exn + ReviewResult list)" where
  "reviewSingleFile rt config diff =
     (if exceedsMaxFileSize config diff then ([], Inr [tooLargeResult config diff])
      else if isBinary diff then ([], Inr [binarySkippedResult diff])
      else
        (let request = generateRequest rt config diff
         in ([request],
             try_catch
               (thenE (axios_post rt request) (\<lambda>data.
                thenE (get_prop data ''response'') (\<lambda>response.
                  parseAIResponse rt (diff_file diff) response)))
               (\<lambda>error. if exn_code error = Some ''ECONNABORTED''
                        then Inl (Exn PlainError None ''Timeout when calling AI model'')
                        else Inl error))))"

subsection \<open>shouldSkipFile and reviewChanges\<close>

definition shouldSkipFile :: "runtime \<Rightarrow> ReviewConfig \<Rightarrow> GitDiff \<Rightarrow> exn + bool" where
  "shouldSkipFile rt config diff =
     thenE (some_exn (\<lambda>pattern. RegExp_test rt pattern (diff_file diff)) (excludePatterns config))
       (\<lambda>excluded.
          if excluded then Inr True
          else if length (includePatterns config) > 0 then
            thenE (some_exn (\<lambda>pattern. RegExp_test rt pattern (diff_file diff)) (includePatterns config))
              (\<lambda>included. Inr (\<not> included))
          else Inr False)"

text \<open>The result that the \<^verbatim>\<open>catch\<close> of \<^verbatim>\<open>reviewChanges\<close> pushes.\<close>

definition failedResult :: "GitDiff \<Rightarrow> exn \<Rightarrow> ReviewResult" where
  "failedResult diff thrown =
     \<lparr> result_file = diff_file diff, severity = SevError, line = None,
       message = JString (''Failed to analyze file: '' @ exn_message thrown),
       suggestion = None, category = None \<rparr>"

text \<open>
  The loop of \<^verbatim>\<open>reviewChanges\<close>, with the requests posted so far and the array
  \<^verbatim>\<open>results\<close> as its state. An exception of \<^verbatim>\<open>shouldSkipFile\<close> is outside the \<^verbatim>\<open>try\<close> and
  leaves the loop.
\<close>

fun reviewChanges_loop ::
  "runtime \<Rightarrow> ReviewConfig \<Rightarrow> GitDiff list \<Rightarrow> GenerateRequest list \<times> ReviewResult list
     \<Rightarrow> GenerateRequest list \<times> (exn + ReviewResult list)" where
  "reviewChanges_loop rt config [] (posted, results) = (posted, Inr results)"
| "reviewChanges_loop rt config (diff # others) (posted, results) =
     (case shouldSkipFile rt config diff of
        Inl e \<Rightarrow> (posted, Inl e)
      | Inr skip \<Rightarrow>
          if skip then reviewChanges_loop rt config others (posted, results)
          else
            (case reviewSingleFile rt config diff of
               (requests, Inr review) \<Rightarrow>
                 reviewChanges_loop rt config others (posted @ requests, results @ review)
             | (requests, Inl thrown) \<Rightarrow>
                 reviewChanges_loop rt config others
                   (posted @ requests, results @ [failedResult diff thrown])))"

definition reviewChanges ::
  "runtime \<Rightarrow> ReviewConfig \<Rightarrow> GitDiff list \<Rightarrow> GenerateRequest list \<times> (exn + ReviewResult list)" where
  "reviewChanges rt config diffList = reviewChanges_loop rt config diffList ([], [])"


section \<open>The review command (index.ts)\<close>

text \<open>
  The code of the command-line program stands in test.js, after a sample file.
\<close>

text \<open>
  The loop of the \<^verbatim>\<open>review\<close> action over the diffs, with the requests posted so far and
  the array \<^verbatim>\<open>results\<close> as its state. An exception of \<^verbatim>\<open>reviewChanges\<close> is reported on
  the console and the loop goes on.
\<close>

fun review_loop ::
  "runtime \<Rightarrow> ReviewConfig \<Rightarrow> GitDiff list \<Rightarrow> GenerateRequest list \<times> ReviewResult list
     \<Rightarrow> GenerateRequest list \<times> ReviewResult list" where
  "review_loop rt config [] (posted, results) = (posted, results)"
| "review_loop rt config (diff # others) (posted, results) =
     (if isBinary diff \<or> exceedsMaxFileSize config diff then
        review_loop rt config others (posted, results)
      else
        (case reviewChanges rt config [diff] of
           (requests, Inr fileResults) \<Rightarrow>
             review_loop rt config others (posted @ requests, results @ fileResults)
         | (requests, Inl thrown) \<Rightarrow>
             review_loop rt config others (posted @ requests, results)))"

subsection \<open>groupByFile\<close>

text \<open>
  A plain object is the list of its own properties in the order of their creation.
  \<open>set_own\<close> is the assignment \<^verbatim>\<open>obj[key] = value\<close>: it keeps the place of an existing
  property and appends a new one.
\<close>

fun set_own :: "string \<Rightarrow> 'v \<Rightarrow> (string \<times> 'v) list \<Rightarrow> (string \<times> 'v) list" where
  "set_own key v [] = [(key, v)]"
| "set_own key v ((k, w) # ps) = (if k = key then (key, v) # ps else (k, w) # set_own key v ps)"

text \<open>The property names that every plain object inherits from \<^verbatim>\<open>Object.prototype\<close>.\<close>

definition object_prototype_keys :: "string list" where
  "object_prototype_keys =
     [''constructor'', ''__defineGetter__'', ''__defineSetter__'', ''hasOwnProperty'',
      ''__lookupGetter__'', ''__lookupSetter__'', ''isPrototypeOf'', ''propertyIsEnumerable'',
      ''toString'', ''valueOf'', ''__proto__'', ''toLocaleString'']"

text \<open>
  The callback of \<^verbatim>\<open>results.reduce\<close>. When \<^verbatim>\<open>acc[result.file]\<close> is an own property it is
  the array of that file, and the result is pushed. Otherwise, when the name is inherited
  from \<^verbatim>\<open>Object.prototype\<close> the read gives a truthy value that is not an array, no array
  is stored, and \<^verbatim>\<open>push\<close> is not a function; for any other name the read gives
  \<^verbatim>\<open>undefined\<close>, an empty array is stored and the result is pushed.
\<close>

definition groupByFile_step ::
  "(string \<times> ReviewResult list) list \<Rightarrow> ReviewResult \<Rightarrow> exn + (string \<times> ReviewResult list) list" where
  "groupByFile_step acc result =
     (case map_of acc (result_file result) of
        Some fileResults \<Rightarrow> Inr (set_own (result_file result) (fileResults @ [result]) acc)
      | None \<Rightarrow>
          if result_file result \<in> set object_prototype_keys
          then Inl (Exn TypeError None ''acc[result.file].push is not a function'')
          else Inr (set_own (result_file result) [result] acc))"

fun reduce_exn :: "('b \<Rightarrow> 'a \<Rightarrow> exn + 'b) \<Rightarrow> 'a list \<Rightarrow> 'b \<Rightarrow> exn + 'b" where
  "reduce_exn f [] acc = Inr acc"
| "reduce_exn f (x # xs) acc = thenE (f acc x) (\<lambda>acc'. reduce_exn f xs acc')"

definition groupByFile :: "ReviewResult list \<Rightarrow> exn + (string \<times> ReviewResult list) list" where
  "groupByFile results = reduce_exn groupByFile_step results []"

subsection \<open>displayResults\<close>

text \<open>
  \<^verbatim>\<open>Object.entries\<close> lists the own properties whose names are array indices (canonical
  decimal numerals below \<open>2\<^sup>3\<^sup>2 - 1\<close>) first, in ascending numeric order, and then the
  other properties in the order of their creation.
\<close>

definition digit_value :: "char \<Rightarrow> nat" where
  "digit_value c =
     (case map_of (zip ''0123456789'' [0, 1, 2, 3, 4, 5, 6, 7, 8, 9]) c of Some d \<Rightarrow> d | None \<Rightarrow> 0)"

definition index_value :: "string \<Rightarrow> nat" where
  "index_value s = fold (\<lambda>c n. 10 * n + digit_value c) s 0"

definition is_array_index :: "string \<Rightarrow> bool" where
  "is_array_index s =
     (case s of
        [] \<Rightarrow> False
      | c # cs \<Rightarrow>
          list_all (\<lambda>d. d \<in> set ''0123456789'') s
          \<and> (if c = CHR ''0'' then cs = [] else True)
          \<and> index_value s < 4294967295)"

definition Object_entries :: "(string \<times> 'v) list \<Rightarrow> (string \<times> 'v) list" where
  "Object_entries obj =
     sort_key (\<lambda>p. index_value (fst p)) (filter (\<lambda>p. is_array_index (fst p)) obj)
     @ filter (\<lambda>p. \<not> is_array_index (fst p)) obj"

text \<open>The table \<^verbatim>\<open>severityOrder\<close> of the comparator.\<close>

fun severityOrder :: "severity \<Rightarrow> nat" where
  "severityOrder SevError = 0"
| "severityOrder SevWarning = 1"
| "severityOrder SevInfo = 2"

text \<open>
  What \<^verbatim>\<open>displayResults\<close> prints: the file sections in the order of \<^verbatim>\<open>Object.entries\<close>,
  each with its results after \<^verbatim>\<open>Array.prototype.sort\<close> with the comparator
  \<^verbatim>\<open>aOrder - bOrder\<close>; the sort is stable. For an empty array nothing but a notice is
  printed.
\<close>

definition displayResults :: "ReviewResult list \<Rightarrow> exn + (string \<times> ReviewResult list) list" where
  "displayResults results =
     (if length results = 0 then Inr []
      else thenE (groupByFile results)
             (\<lambda>grouped. Inr (map (\<lambda>p. (fst p, sort_key (\<lambda>r. severityOrder (severity r)) (snd p)))
                                (Object_entries grouped))))"


section \<open>A reference run-time environment\<close>

text \<open>
  A reader for the JSON grammar of ECMA-404, used where a property is evaluated on a
  concrete text. White space is space, tab, line feed and carriage return; a string may
  not contain a control character; the escapes are the eight simple ones and \<^verbatim>\<open>\uXXXX\<close>
  (accepted here for code units below 256). The messages
  are shortened forms of V8's; the program only looks for \<^verbatim>\<open>Unterminated string\<close> in
  them. The first argument of \<open>parse_value\<close>, \<open>parse_elements\<close> and \<open>parse_members\<close> is
  fuel: one element is spent for each nested value, element or member.
\<close>

definition json_ws :: "char \<Rightarrow> bool" where
  "json_ws c = (c \<in> set [CHR 0x20, CHR 0x09, CHR 0x0A, CHR 0x0D])"

definition is_digit :: "char \<Rightarrow> bool" where
  "is_digit c = (c \<in> set ''0123456789'')"

definition hex_value :: "char \<Rightarrow> nat option" where
  "hex_value c =
     map_of (zip ''0123456789abcdefABCDEF''
               [0, 1, 2, 3, 4, 5, 6, 7, 8, 9, 10, 11, 12, 13, 14, 15, 10, 11, 12, 13, 14, 15]) c"

definition simple_escape :: "char \<Rightarrow> char option" where
  "simple_escape c =
     map_of [(CHR 0x22, CHR 0x22), (CHR 0x5C, CHR 0x5C), (CHR ''/'', CHR ''/''),
             (CHR ''b'', CHR 0x08), (CHR ''f'', CHR 0x0C), (CHR ''n'', CHR 0x0A),
             (CHR ''r'', CHR 0x0D), (CHR ''t'', CHR 0x09)] c"

fun parse_string :: "string \<Rightarrow> string \<Rightarrow> string + string \<times> string" where
  "parse_string acc [] = Inl ''Unterminated string in JSON''"
| "parse_string acc (c # cs) =
     (if c = CHR 0x22 then Inr (rev acc, cs)
      else if c = CHR 0x5C then
        (case cs of
           [] \<Rightarrow> Inl ''Unterminated string in JSON''
         | e # es \<Rightarrow>
             (case simple_escape e of
                Some d \<Rightarrow> parse_string (d # acc) es
              | None \<Rightarrow>
                  (case es of
                     h1 # h2 # h3 # h4 # rest \<Rightarrow>
                       (case (hex_value h1, hex_value h2, hex_value h3, hex_value h4) of
                          (Some a, Some b, Some c', Some d) \<Rightarrow>
                            (if e = CHR ''u'' \<and> a = 0 \<and> b = 0
                             then parse_string (char_of (16 * c' + d) # acc) rest
                             else Inl ''Bad escaped character in JSON'')
                        | _ \<Rightarrow> Inl ''Bad escaped character in JSON'')
                   | _ \<Rightarrow> Inl ''Bad escaped character in JSON'')))
      else if of_char c < (32 :: nat) then Inl ''Bad control character in string literal in JSON''
      else parse_string (c # acc) cs)"

definition parse_digits :: "string \<Rightarrow> (string \<times> string) option" where
  "parse_digits s = (if takeWhile is_digit s = [] then None
                     else Some (takeWhile is_digit s, dropWhile is_digit s))"

definition parse_int_part :: "string \<Rightarrow> (string \<times> string) option" where
  "parse_int_part s =
     (case s of
        [] \<Rightarrow> None
      | c # cs \<Rightarrow> if c = CHR ''0'' then Some (''0'', cs) else parse_digits s)"

definition parse_frac :: "string \<Rightarrow> (string \<times> string) option" where
  "parse_frac s =
     (case s of
        [] \<Rightarrow> Some ([], s)
      | c # cs \<Rightarrow>
          if c = CHR ''.'' then
            (case parse_digits cs of Some (ds, rest) \<Rightarrow> Some (c # ds, rest) | None \<Rightarrow> None)
          else Some ([], s))"

definition parse_exp :: "string \<Rightarrow> (string \<times> string) option" where
  "parse_exp s =
     (case s of
        [] \<Rightarrow> Some ([], s)
      | c # cs \<Rightarrow>
          if c = CHR ''e'' \<or> c = CHR ''E'' then
            (let (sign, cs') =
                   (case cs of
                      [] \<Rightarrow> ([], cs)
                    | d # ds \<Rightarrow> if d = CHR ''+'' \<or> d = CHR ''-'' then ([d], ds) else ([], cs))
             in case parse_digits cs' of
                  Some (ds, rest) \<Rightarrow> Some (c # sign @ ds, rest)
                | None \<Rightarrow> None)
          else Some ([], s))"

definition parse_number :: "string \<Rightarrow> (string \<times> string) option" where
  "parse_number s =
     (let (sign, s1) =
            (case s of [] \<Rightarrow> ([], s) | c # cs \<Rightarrow> if c = CHR ''-'' then ([c], cs) else ([], s))
      in case parse_int_part s1 of
           None \<Rightarrow> None
         | Some (ip, s2) \<Rightarrow>
             (case parse_frac s2 of
                None \<Rightarrow> None
              | Some (fp, s3) \<Rightarrow>
                  (case parse_exp s3 of
                     None \<Rightarrow> None
                   | Some (ep, s4) \<Rightarrow> Some (sign @ ip @ fp @ ep, s4))))"

fun parse_value :: "string \<Rightarrow> string \<Rightarrow> string + json \<times> string"
  and parse_elements :: "string \<Rightarrow> string \<Rightarrow> json list \<Rightarrow> string + json \<times> string"
  and parse_members :: "string \<Rightarrow> string \<Rightarrow> (string \<times> json) list \<Rightarrow> string + json \<times> string"
where
  "parse_value [] s = Inl ''Unexpected end of JSON input''"
| "parse_value (f # fuel) s =
     (case dropWhile json_ws s of
        [] \<Rightarrow> Inl ''Unexpected end of JSON input''
      | c # cs \<Rightarrow>
          if c = CHR ''{'' then
            (case dropWhile json_ws cs of
               [] \<Rightarrow> Inl ''Unexpected end of JSON input''
             | d # ds \<Rightarrow> if d = CHR ''}'' then Inr (JObject [], ds) else parse_members fuel cs [])
          else if c = CHR ''['' then
            (case dropWhile json_ws cs of
               [] \<Rightarrow> Inl ''Unexpected end of JSON input''
             | d # ds \<Rightarrow> if d = CHR '']'' then Inr (JArray [], ds) else parse_elements fuel cs [])
          else if c = CHR 0x22 then
            (case parse_string [] cs of
               Inl e \<Rightarrow> Inl e
             | Inr (str, rest) \<Rightarrow> Inr (JString str, rest))
          else if c = CHR ''-'' \<or> is_digit c then
            (case parse_number (c # cs) of
               None \<Rightarrow> Inl ''Unexpected token in JSON''
             | Some (lexeme, rest) \<Rightarrow> Inr (JNumber lexeme, rest))
          else if startsWith (c # cs) ''true'' then Inr (JBool True, drop 4 (c # cs))
          else if startsWith (c # cs) ''false'' then Inr (JBool False, drop 5 (c # cs))
          else if startsWith (c # cs) ''null'' then Inr (JNull, drop 4 (c # cs))
          else Inl ''Unexpected token in JSON'')"
| "parse_elements [] s acc = Inl ''Unexpected end of JSON input''"
| "parse_elements (f # fuel) s acc =
     (case parse_value fuel s of
        Inl e \<Rightarrow> Inl e
      | Inr (v, rest) \<Rightarrow>
          (case dropWhile json_ws rest of
             [] \<Rightarrow> Inl ''Unexpected end of JSON input''
           | c # cs \<Rightarrow>
               if c = CHR '','' then parse_elements fuel cs (acc @ [v])
               else if c = CHR '']'' then Inr (JArray (acc @ [v]), cs)
               else Inl ''Unexpected token in JSON''))"
| "parse_members [] s acc = Inl ''Unexpected end of JSON input''"
| "parse_members (f # fuel) s acc =
     (case dropWhile json_ws s of
        [] \<Rightarrow> Inl ''Unexpected end of JSON input''
      | q # qs \<Rightarrow>
          if q \<noteq> CHR 0x22 then Inl ''Unexpected token in JSON''
          else
            (case parse_string [] qs of
               Inl e \<Rightarrow> Inl e
             | Inr (key, rest) \<Rightarrow>
                 (case dropWhile json_ws rest of
                    [] \<Rightarrow> Inl ''Unexpected end of JSON input''
                  | c # cs \<Rightarrow>
                      if c \<noteq> CHR '':'' then Inl ''Unexpected token in JSON''
                      else
                        (case parse_value fuel cs of
                           Inl e \<Rightarrow> Inl e
                         | Inr (v, rest') \<Rightarrow>
                             (case dropWhile json_ws rest' of
                                [] \<Rightarrow> Inl ''Unexpected end of JSON input''
                              | d # ds \<Rightarrow>
                                  if d = CHR '','' then parse_members fuel ds (acc @ [(key, v)])
                                  else if d = CHR ''}'' then Inr (JObject (acc @ [(key, v)]), ds)
                                  else Inl ''Unexpected token in JSON'')))))"

definition json_parse :: "string \<Rightarrow> string + json" where
  "json_parse s =
     (case parse_value (CHR ''.'' # s @ s) s of
        Inl e \<Rightarrow> Inl e
      | Inr (v, rest) \<Rightarrow>
          if dropWhile json_ws rest = [] then Inr v
          else Inl ''Unexpected non-whitespace character after JSON'')"

text \<open>
  The reference environment: the reader above; patterns without metacharacters, for
  which the test is the substring test; a model service that lists one model and
  answers every request with the empty review.
\<close>

definition reference_runtime :: runtime where
  "reference_runtime =
     \<lparr> JSON_parse = json_parse,
       RegExp_test = (\<lambda>pattern s. Inr (js_includes s pattern)),
       axios_get = (\<lambda>url ms. Inr (Some (JObject
                      [(''models'', JArray [JObject [(''name'', JString ''codellama:7b-instruct'')]])]))),
       axios_post = (\<lambda>request. Inr (Some (JObject [(''response'', JString ''{\"reviews\":[]}'')]))),
       glyph_new = ''[new]'',
       glyph_deleted = ''[deleted]'',
       glyph_changes = ''[changes]'' \<rparr>"

text \<open>The default configuration of index.ts, with two of its exclude patterns.\<close>

definition default_config :: ReviewConfig where
  "default_config =
     \<lparr> modelUrl = ''http://localhost:11434'',
       modelName = ''codellama:7b-instruct'',
       maxTokens = 2048,
       temperature = 1 / 10,
       includePatterns = [],
       excludePatterns = [''node_modules/'', ''dist/''],
       reviewPrompt = ''You are a senior developer conducting code review.'',
       maxFileSize = Some 500000,
       timeout = Some 120000 \<rparr>"


section \<open>Sample inputs\<close>

text \<open>A change of one line into two, as \<^verbatim>\<open>git diff\<close> prints it.\<close>

definition edit_diff :: string where
  "edit_diff = join
     [''diff --git a/src/a.js b/src/a.js'',
      ''index 83db48f..bf269f4 100644'',
      ''--- a/src/a.js'',
      ''+++ b/src/a.js'',
      ''@@ -1 +1,2 @@'',
      ''-var x = 1;'',
      ''+const x = 1;'',
      ''+// the two values differ''] [CHR 0x0A]"

text \<open>
  A regular file replaced by a symbolic link of the same name: \<^verbatim>\<open>git diff\<close> prints the
  deletion and the creation one after the other.
\<close>

definition typechange_diff :: string where
  "typechange_diff = join
     [''diff --git a/link b/link'',
      ''deleted file mode 100644'',
      ''index 257cc56..0000000'',
      ''--- a/link'',
      ''+++ /dev/null'',
      ''@@ -1 +0,0 @@'',
      ''-foo'',
      ''diff --git a/link b/link'',
      ''new file mode 120000'',
      ''index 0000000..1910281'',
      ''--- /dev/null'',
      ''+++ b/link'',
      ''@@ -0,0 +1 @@'',
      ''+target''] [CHR 0x0A]"

definition new_file_diff :: string where
  "new_file_diff = join
     [''diff --git a/n.txt b/n.txt'',
      ''new file mode 100644'',
      ''index 0000000..ce01362'',
      ''--- /dev/null'',
      ''+++ b/n.txt'',
      ''@@ -0,0 +1 @@'',
      ''+hello''] [CHR 0x0A]"

text \<open>A change record for a text file of 600000 bytes, and one for a small text file.\<close>

definition large_file :: GitDiff where
  "large_file =
     \<lparr> diff_file = ''src/big.js'', additions = 1, deletions = 0, changes = ''+x'',
       isNew = False, isDeleted = False, isBinary = False, fileSize = Some 600000 \<rparr>"

definition small_file :: GitDiff where
  "small_file =
     \<lparr> diff_file = ''src/a.js'', additions = 1, deletions = 0, changes = ''+x'',
       isNew = False, isDeleted = False, isBinary = False, fileSize = Some 42 \<rparr>"

text \<open>
  Two replies of the model: a complete one with one review, and one cut off inside a
  string.
\<close>

definition exact_reply :: string where
  "exact_reply = ''{\"reviews\":[{\"severity\":\"error\",\"message\":\"x\"}]}''"

definition truncated_reply :: string where
  "truncated_reply = ''{\"reviews\":[{\"severity\":\"warning\",\"message\":\"ab''"

text \<open>Two replies that wrap the answer: in a fenced block, and in prose.\<close>

definition fenced_reply :: string where
  "fenced_reply =
     join [''Here is the review:'', ''```json'', ''{\"reviews\":[]}'', ''```'', ''Done.''] [CHR 0x0A]"

definition prose_reply :: string where
  "prose_reply = ''Sure! {\"reviews\":[]} Hope this helps {:''"

text \<open>An environment in which the model service refuses the connection.\<close>

definition offline_runtime :: runtime where
  "offline_runtime =
     reference_runtime
       \<lparr> axios_get := (\<lambda>url ms. Inl (Exn AxiosError (Some ''ECONNREFUSED'')
                                       ''connect ECONNREFUSED 127.0.0.1:11434'')) \<rparr>"


section \<open>The names a payload reports\<close>

text \<open>
  The reported model identifiers of a payload of the expected shape: an object whose
  \<^verbatim>\<open>models\<close> is an array of objects, each with a string \<^verbatim>\<open>name\<close>. Any other payload
  reports \<open>None\<close>. These two functions are not part of the program; the properties of
  \<open>checkHealth\<close> are stated with them.
\<close>

definition model_name :: "json \<Rightarrow> string option" where
  "model_name m =
     (case m of
        JObject kvs \<Rightarrow> (case map_of (rev kvs) ''name'' of Some (JString s) \<Rightarrow> Some s | _ \<Rightarrow> None)
      | _ \<Rightarrow> None)"

definition reported_names :: "json \<Rightarrow> string list option" where
  "reported_names data =
     (case data of
        JObject kvs \<Rightarrow>
          (case map_of (rev kvs) ''models'' of
             Some (JArray ms) \<Rightarrow> those (map model_name ms)
           | _ \<Rightarrow> None)
      | _ \<Rightarrow> None)"


section \<open>The order of a report\<close>

text \<open>
  Three functions that are not part of the program; the property of \<open>displayResults\<close> is
  stated with them. \<open>first_seen\<close> lists the distinct elements of a list in the order of
  their first occurrence. \<open>section_order\<close> puts the names that are array indices first, in
  ascending numeric order, and leaves the other names in their order. \<open>finding\<close> builds a
  result with a file, a severity and a message.
\<close>

fun first_seen :: "'a list \<Rightarrow> 'a list" where
  "first_seen [] = []"
| "first_seen (x # xs) = x # first_seen (filter (\<lambda>y. y \<noteq> x) xs)"

definition section_order :: "string list \<Rightarrow> string list" where
  "section_order names =
     sort_key index_value (filter is_array_index names)
     @ filter (\<lambda>name. \<not> is_array_index name) names"

definition finding :: "string \<Rightarrow> severity \<Rightarrow> string \<Rightarrow> ReviewResult" where
  "finding path sev text =
     \<lparr> result_file = path, severity = sev, line = None, message = JString text,
       suggestion = None, category = None \<rparr>"

text \<open>The groups of a list of results: file by file in first-seen order, each file with its
  results in the order of their arrival.\<close>

definition groups_of :: "ReviewResult list \<Rightarrow> (string \<times> ReviewResult list) list" where
  "groups_of rs = map (\<lambda>f. (f, filter (\<lambda>r. result_file r = f) rs)) (first_seen (map result_file rs))"

text \<open>Four results for two files, and two results of which the second file is named \<^verbatim>\<open>1\<close>.\<close>

definition mixed_results :: "ReviewResult list" where
  "mixed_results =
     [finding ''src/b.js'' SevInfo ''unused variable'',
      finding ''src/a.js'' SevWarning ''slow loop'',
      finding ''src/b.js'' SevError ''unsafe eval'',
      finding ''src/b.js'' SevInfo ''long line'']"

definition numbered_results :: "ReviewResult list" where
  "numbered_results = [finding ''b.js'' SevInfo ''long line'', finding ''1'' SevInfo ''typo'']"


section \<open>The marked lines of a diff\<close>

text \<open>
  Two functions that are not part of the program: the two ways to read ``the lines that
  begin with a single marker, excluding the file-header line''. \<open>single_marker_lines\<close>
  takes the lines that begin with exactly one marker: the code unit after it is not a
  marker. \<open>marker_lines_without_header\<close> takes every line that begins with the marker,
  except the line of three markers in the file header, that is, before the first hunk
  (the first line that starts with \<^verbatim>\<open>@@\<close>).
\<close>

definition single_marker_lines :: "char \<Rightarrow> string list \<Rightarrow> string list" where
  "single_marker_lines m lines =
     filter (\<lambda>l. startsWith l [m] \<and> \<not> startsWith l [m, m]) lines"

definition marker_lines_without_header :: "char \<Rightarrow> string list \<Rightarrow> string list" where
  "marker_lines_without_header m lines =
     filter (\<lambda>l. startsWith l [m] \<and> \<not> startsWith l [m, m, m])
       (takeWhile (\<lambda>l. \<not> startsWith l ''@@'') lines)
     @ filter (\<lambda>l. startsWith l [m]) (dropWhile (\<lambda>l. \<not> startsWith l ''@@'') lines)"

text \<open>
  A change of a Markdown file: the list item \<^verbatim>\<open>- old item\<close> and the rule \<^verbatim>\<open>---\<close> are
  removed, the list item \<^verbatim>\<open>+ new item\<close> and the line \<^verbatim>\<open>++counter;\<close> are added.
\<close>

definition marker_diff :: string where
  "marker_diff = join
     [''diff --git a/notes.md b/notes.md'',
      ''index 1111111..2222222 100644'',
      ''--- a/notes.md'',
      ''+++ b/notes.md'',
      ''@@ -1,2 +1,2 @@'',
      ''-- old item'',
      ''----'',
      ''++ new item'',
      ''+++counter;''] [CHR 0x0A]"


section \<open>Evaluation of decimal texts\<close>

lemma show_nat_numeral [simp]:
  "show_nat (numeral k) =
     (if (numeral k :: nat) < 10 then [digit (numeral k)]
      else show_nat (numeral k div 10) @ [digit (numeral k mod 10)])"
  by (rule show_nat.simps)

lemma show_nat_0 [simp]: "show_nat 0 = ''0''"
  by (simp add: show_nat.simps [of 0] digit_def)

lemma show_nat_Suc_0 [simp]: "show_nat (Suc 0) = ''1''"
  by (simp add: show_nat.simps [of "Suc 0"] digit_def)

text \<open>The text that \<open>show_nat\<close> prints is the decimal numeral of the number.\<close>

lemma digit_value_digit: "d < 10 \<Longrightarrow> digit_value (digit d) = d"
proof -
  assume "d < 10"
  then have "d \<in> {0, 1, 2, 3, 4, 5, 6, 7, 8, 9}" by auto
  then show ?thesis
    by (auto simp: digit_value_def digit_def)
qed

lemma index_value_snoc: "index_value (s @ [c]) = 10 * index_value s + digit_value c"
  by (simp add: index_value_def)

lemma index_value_show_nat: "index_value (show_nat n) = n"
proof (induction n rule: show_nat.induct)
  case (1 n)
  show ?case
  proof (cases "n < 10")
    case True
    then show ?thesis
      by (simp add: show_nat.simps [of n] index_value_def digit_value_digit)
  next
    case False
    then have "index_value (show_nat (n div 10)) = n div 10"
      by (rule "1.IH")
    with False show ?thesis
      by (simp add: show_nat.simps [of n] index_value_snoc digit_value_digit)
  qed
qed


section \<open>Properties of the diff extractor\<close>

lemma count_line_pair:
  "count_line l (a, d) =
     (if startsWith l ''+'' \<and> \<not> startsWith l ''+++'' then a + 1 else a,
      if startsWith l ''-'' \<and> \<not> startsWith l ''---'' then d + 1 else d)"
  by (simp add: count_line_def)

lemma fold_count_line:
  "fold count_line ls (a, d) =
     (a + length (filter (\<lambda>l. startsWith l ''+'' \<and> \<not> startsWith l ''+++'') ls),
      d + length (filter (\<lambda>l. startsWith l ''-'' \<and> \<not> startsWith l ''---'') ls))"
proof (induction ls arbitrary: a d)
  case Nil
  show ?case by simp
next
  case (Cons l ls)
  have "fold count_line (l # ls) (a, d) = fold count_line ls (count_line l (a, d))"
    by simp
  then show ?case
    by (simp only: count_line_pair Cons.IH) simp
qed

text \<open>
  Claim C6, as amended. For a diff text parsed without precomputed statistics (a text
  that is not blank, so that a record is produced), \<^verbatim>\<open>additions\<close> is the number of lines
  that start with \<^verbatim>\<open>+\<close> and do not start with \<^verbatim>\<open>+++\<close>, wherever they stand, and
  \<^verbatim>\<open>deletions\<close> is the number of lines that start with \<^verbatim>\<open>-\<close> and do not start with
  \<^verbatim>\<open>---\<close>. So an added line whose own text begins with \<^verbatim>\<open>+\<close> is counted and one whose
  text begins with \<^verbatim>\<open>++\<close> is not, and likewise for removed lines.
\<close>

theorem parseSingleFileDiff_counts:
  assumes "trim diffText \<noteq> []"
  shows "\<exists>d. parseSingleFileDiff fsSize fileName diffText isStaged None = Some d
           \<and> additions d = length (filter (\<lambda>l. startsWith l ''+'' \<and> \<not> startsWith l ''+++'')
                                       (js_split diffText (CHR 0x0A)))
           \<and> deletions d = length (filter (\<lambda>l. startsWith l ''-'' \<and> \<not> startsWith l ''---'')
                                       (js_split diffText (CHR 0x0A)))"
proof -
  let ?lines = "js_split diffText (CHR 0x0A)"
  have loop: "fold count_line ?lines (0, 0) =
      (length (filter (\<lambda>l. startsWith l ''+'' \<and> \<not> startsWith l ''+++'') ?lines),
       length (filter (\<lambda>l. startsWith l ''-'' \<and> \<not> startsWith l ''---'') ?lines))"
    using fold_count_line [of ?lines 0 0] by simp
  from assms show ?thesis
    by (simp add: parseSingleFileDiff_def Let_def loop)
qed

theorem parseSingleFileDiff_counts_witness:
  "trim edit_diff \<noteq> []
   \<and> (\<exists>d. parseSingleFileDiff (\<lambda>p. None) ''src/a.js'' edit_diff False None = Some d
         \<and> additions d = 2 \<and> deletions d = 1)"
  using parseSingleFileDiff_counts
    [where diffText = edit_diff and fsSize = "\<lambda>p. None" and fileName = "''src/a.js''"
       and isStaged = False]
  by (simp add: edit_diff_def trim_def js_space_def numeral_2_eq_2)

text \<open>
  The claim as stated fails on lines whose own text begins with the marker. On the
  Markdown change, which adds two lines and removes two, the extractor counts one and
  one; the lines that begin with exactly one marker are none, and the lines that begin
  with a marker, the header apart, are two and two.
\<close>

theorem marker_lines_counterexample:
  "parseSingleFileDiff (\<lambda>p. None) ''notes.md'' marker_diff False None =
     Some \<lparr> diff_file = ''notes.md'', additions = 1, deletions = 1, changes = marker_diff,
            isNew = False, isDeleted = False, isBinary = False, fileSize = None \<rparr>
   \<and> length (single_marker_lines (CHR ''+'') (js_split marker_diff (CHR 0x0A))) = 0
   \<and> length (single_marker_lines (CHR ''-'') (js_split marker_diff (CHR 0x0A))) = 0
   \<and> length (marker_lines_without_header (CHR ''+'') (js_split marker_diff (CHR 0x0A))) = 2
   \<and> length (marker_lines_without_header (CHR ''-'') (js_split marker_diff (CHR 0x0A))) = 2"
proof -
  have lines: "js_split marker_diff (CHR 0x0A) =
     [''diff --git a/notes.md b/notes.md'',
      ''index 1111111..2222222 100644'',
      ''--- a/notes.md'',
      ''+++ b/notes.md'',
      ''@@ -1,2 +1,2 @@'',
      ''-- old item'',
      ''----'',
      ''++ new item'',
      ''+++counter;'']"
    by (simp add: marker_diff_def)
  have parsed: "parseSingleFileDiff (\<lambda>p. None) ''notes.md'' marker_diff False None =
     Some \<lparr> diff_file = ''notes.md'', additions = 1, deletions = 1, changes = marker_diff,
            isNew = False, isDeleted = False, isBinary = False, fileSize = None \<rparr>"
    by (simp add: parseSingleFileDiff_def marker_diff_def trim_def js_space_def Let_def
        count_line_pair)
  have exact: "length (single_marker_lines (CHR ''+'') (js_split marker_diff (CHR 0x0A))) = 0"
    "length (single_marker_lines (CHR ''-'') (js_split marker_diff (CHR 0x0A))) = 0"
    unfolding lines by (simp_all add: single_marker_lines_def)
  have apart: "length (marker_lines_without_header (CHR ''+'') (js_split marker_diff (CHR 0x0A))) = 2"
    "length (marker_lines_without_header (CHR ''-'') (js_split marker_diff (CHR 0x0A))) = 2"
    unfolding lines by (simp_all add: marker_lines_without_header_def)
  from parsed exact apart show ?thesis by blast
qed

lemma js_includes_first: "js_includes s (c # cs) \<Longrightarrow> c \<in> set s"
  by (induction s) auto

lemma trim_empty_spaces: "trim s = [] \<Longrightarrow> list_all js_space s"
proof -
  assume "trim s = []"
  then have "dropWhile js_space (rev (dropWhile js_space s)) = []"
    by (simp add: trim_def)
  then have "\<forall>c \<in> set (dropWhile js_space s). js_space c"
    by (simp add: dropWhile_eq_Nil_conv)
  then have "dropWhile js_space s = []"
    by (metis hd_dropWhile hd_in_set)
  then show ?thesis
    by (simp add: dropWhile_eq_Nil_conv list_all_iff)
qed

lemma differ_not_blank: "js_includes s ''differ'' \<Longrightarrow> trim s \<noteq> []"
proof
  assume inc: "js_includes s ''differ''" and "trim s = []"
  then have "list_all js_space s" by (rule_tac trim_empty_spaces)
  moreover from inc have "CHR ''d'' \<in> set s" by (rule js_includes_first)
  ultimately have "js_space (CHR ''d'')" by (simp add: list_all_iff)
  then show False by (simp add: js_space_def)
qed

lemma parseSingleFileDiff_Some:
  assumes "trim diffText \<noteq> []"
  shows "\<exists>d. parseSingleFileDiff fsSize fileName diffText isStaged stats = Some d
           \<and> isBinary d = (js_includes diffText ''Binary files'' \<or> js_includes diffText ''differ'')"
proof (cases stats)
  case None
  obtain a b where "fold count_line (js_split diffText (CHR 0x0A)) (0, 0) = (a, b)"
    by (cases "fold count_line (js_split diffText (CHR 0x0A)) (0, 0)")
  with None assms show ?thesis
    by (simp add: parseSingleFileDiff_def Let_def)
next
  case (Some st)
  with assms show ?thesis
    by (simp add: parseSingleFileDiff_def Let_def)
qed

text \<open>
  Claim C4, as amended. In the working-tree and staged modes (no statistics) \<^verbatim>\<open>isNew\<close> is
  set exactly when some line starts with \<^verbatim>\<open>new file mode\<close> and \<^verbatim>\<open>isDeleted\<close> exactly when
  some line starts with \<^verbatim>\<open>deleted file mode\<close>, each flag on its own; in the commit mode,
  where the flags come from the insertion and deletion counts, they are never both set.
\<close>

theorem new_deleted_flags:
  assumes "trim diffText \<noteq> []"
  shows "(\<exists>d. parseSingleFileDiff fsSize fileName diffText isStaged None = Some d
            \<and> isNew d = list_ex (\<lambda>l. startsWith l ''new file mode'') (js_split diffText (CHR 0x0A))
            \<and> isDeleted d = list_ex (\<lambda>l. startsWith l ''deleted file mode'')
                                     (js_split diffText (CHR 0x0A)))
       \<and> (\<exists>d. parseSingleFileDiff fsSize fileName diffText isStaged
                  (Some (commitStats insertions dels)) = Some d
            \<and> \<not> (isNew d \<and> isDeleted d))"
proof
  obtain a b where "fold count_line (js_split diffText (CHR 0x0A)) (0, 0) = (a, b)"
    by (cases "fold count_line (js_split diffText (CHR 0x0A)) (0, 0)")
  with assms
  show "\<exists>d. parseSingleFileDiff fsSize fileName diffText isStaged None = Some d
            \<and> isNew d = list_ex (\<lambda>l. startsWith l ''new file mode'') (js_split diffText (CHR 0x0A))
            \<and> isDeleted d = list_ex (\<lambda>l. startsWith l ''deleted file mode'')
                                     (js_split diffText (CHR 0x0A))"
    by (simp add: parseSingleFileDiff_def Let_def)
next
  from assms
  show "\<exists>d. parseSingleFileDiff fsSize fileName diffText isStaged
                  (Some (commitStats insertions dels)) = Some d
            \<and> \<not> (isNew d \<and> isDeleted d)"
    by (simp add: parseSingleFileDiff_def Let_def commitStats_def)
qed

theorem new_deleted_flags_witness:
  "trim new_file_diff \<noteq> []
   \<and> (\<exists>d. parseSingleFileDiff (\<lambda>p. Some 6) ''n.txt'' new_file_diff False None = Some d
         \<and> isNew d \<and> \<not> isDeleted d)
   \<and> (\<exists>d. parseSingleFileDiff (\<lambda>p. Some 6) ''n.txt'' new_file_diff False
               (Some (commitStats (Some 1) None)) = Some d
         \<and> \<not> (isNew d \<and> isDeleted d))"
  using new_deleted_flags
    [where diffText = new_file_diff and fsSize = "\<lambda>p. Some 6" and fileName = "''n.txt''"
       and isStaged = False and insertions = "Some 1" and dels = None]
  by (simp add: new_file_diff_def trim_def js_space_def)

text \<open>
  The claim as stated fails on the diff of a type change, which carries both markers:
  both flags are set.
\<close>

theorem typechange_both_flags_counterexample:
  "parseSingleFileDiff (\<lambda>p. Some 6) ''link'' typechange_diff True None =
     Some \<lparr> diff_file = ''link'', additions = 1, deletions = 1, changes = typechange_diff,
            isNew = True, isDeleted = True, isBinary = False, fileSize = None \<rparr>"
  by (simp add: parseSingleFileDiff_def typechange_diff_def trim_def js_space_def Let_def
      count_line_pair)


section \<open>Properties of the model client\<close>

lemma reviewChanges_single_posted:
  assumes "shouldSkipFile rt config d = Inr False"
  shows "fst (reviewChanges rt config [d]) = fst (reviewSingleFile rt config d)"
proof (cases "reviewSingleFile rt config d")
  case (Pair requests outcome)
  with assms show ?thesis
    by (cases outcome) (simp_all add: reviewChanges_def)
qed

lemma review_loop_single_posted:
  assumes "\<not> isBinary d" and "\<not> exceedsMaxFileSize config d"
  shows "fst (review_loop rt config [d] ([], [])) = fst (reviewChanges rt config [d])"
proof (cases "reviewChanges rt config [d]")
  case (Pair requests outcome)
  with assms show ?thesis
    by (cases outcome) simp_all
qed

text \<open>
  Claim C1, as amended. For a change record that is neither too large nor binary,
  \<^verbatim>\<open>reviewSingleFile\<close> posts exactly one request. Its temperature is the configured one.
  Its \<^verbatim>\<open>num_predict\<close> is the smaller of the configured \<^verbatim>\<open>maxTokens\<close> and 2048, and 2048
  when \<^verbatim>\<open>maxTokens\<close> is zero; so it equals \<^verbatim>\<open>maxTokens\<close> exactly when \<^verbatim>\<open>maxTokens\<close> is
  not zero and at most 2048 (a negative value such as \<open>-1\<close> is passed on as it is). Its
  timeout is the configured one, or 30000 ms when none (or zero) is configured. When no
  pattern rule skips the file, \<^verbatim>\<open>reviewChanges\<close> and the review command post that one
  request.
\<close>

theorem eligible_request_parameters:
  assumes "\<not> exceedsMaxFileSize config d" and "\<not> isBinary d"
  shows "fst (reviewSingleFile rt config d) = [generateRequest rt config d]
       \<and> req_temperature (generateRequest rt config d) = temperature config
       \<and> req_num_predict (generateRequest rt config d) =
           (if maxTokens config = 0 then 2048 else min (maxTokens config) 2048)
       \<and> (req_num_predict (generateRequest rt config d) = maxTokens config
            \<longleftrightarrow> maxTokens config \<noteq> 0 \<and> maxTokens config \<le> 2048)
       \<and> req_timeout (generateRequest rt config d) =
           (case timeout config of None \<Rightarrow> 30000 | Some t \<Rightarrow> if t = 0 then 30000 else t)
       \<and> (shouldSkipFile rt config d = Inr False
            \<longrightarrow> fst (reviewChanges rt config [d]) = [generateRequest rt config d]
              \<and> fst (review_loop rt config [d] ([], [])) = [generateRequest rt config d])"
proof -
  have single: "fst (reviewSingleFile rt config d) = [generateRequest rt config d]"
    using assms by (simp add: reviewSingleFile_def Let_def)
  have params: "req_temperature (generateRequest rt config d) = temperature config
       \<and> req_num_predict (generateRequest rt config d) =
           (if maxTokens config = 0 then 2048 else min (maxTokens config) 2048)
       \<and> req_timeout (generateRequest rt config d) =
           (case timeout config of None \<Rightarrow> 30000 | Some t \<Rightarrow> if t = 0 then 30000 else t)"
    by (simp add: generateRequest_def or_default_def)
  have equal: "req_num_predict (generateRequest rt config d) = maxTokens config
            \<longleftrightarrow> maxTokens config \<noteq> 0 \<and> maxTokens config \<le> 2048"
  proof (cases "maxTokens config = 0")
    case True
    then show ?thesis by (simp add: generateRequest_def)
  next
    case False
    then show ?thesis by (auto simp: generateRequest_def min_def)
  qed
  have batch: "shouldSkipFile rt config d = Inr False
            \<longrightarrow> fst (reviewChanges rt config [d]) = [generateRequest rt config d]
              \<and> fst (review_loop rt config [d] ([], [])) = [generateRequest rt config d]"
  proof
    assume noskip: "shouldSkipFile rt config d = Inr False"
    have changes: "fst (reviewChanges rt config [d]) = [generateRequest rt config d]"
      using reviewChanges_single_posted [OF noskip] single by (simp only:)
    have "fst (review_loop rt config [d] ([], [])) = fst (reviewChanges rt config [d])"
      using assms by (intro review_loop_single_posted)
    with changes show "fst (reviewChanges rt config [d]) = [generateRequest rt config d]
              \<and> fst (review_loop rt config [d] ([], [])) = [generateRequest rt config d]"
      by (simp only: simp_thms)
  qed
  from single params equal batch show ?thesis by blast
qed

theorem eligible_request_parameters_witness:
  "\<not> exceedsMaxFileSize default_config small_file \<and> \<not> isBinary small_file
   \<and> shouldSkipFile reference_runtime default_config small_file = Inr False
   \<and> map req_temperature (fst (review_loop reference_runtime default_config [small_file] ([], []))) = [1 / 10]
   \<and> map req_num_predict (fst (review_loop reference_runtime default_config [small_file] ([], []))) = [2048]
   \<and> map req_timeout (fst (review_loop reference_runtime default_config [small_file] ([], []))) = [120000]
   \<and> map req_num_predict
        (fst (reviewSingleFile reference_runtime (default_config \<lparr> maxTokens := - 1 \<rparr>) small_file))
       = [- 1]"
proof -
  have a: "\<not> exceedsMaxFileSize default_config small_file"
    by (simp add: exceedsMaxFileSize_def default_config_def small_file_def)
  have b: "\<not> isBinary small_file"
    by (simp add: small_file_def)
  have c: "shouldSkipFile reference_runtime default_config small_file = Inr False"
    by (simp add: shouldSkipFile_def reference_runtime_def default_config_def small_file_def thenE_def)
  from eligible_request_parameters [OF a b, of reference_runtime] c
  have "fst (review_loop reference_runtime default_config [small_file] ([], [])) =
          [generateRequest reference_runtime default_config small_file]"
    and "req_temperature (generateRequest reference_runtime default_config small_file) = temperature default_config"
    and "req_num_predict (generateRequest reference_runtime default_config small_file) =
           (if maxTokens default_config = 0 then 2048 else min (maxTokens default_config) 2048)"
    and "req_timeout (generateRequest reference_runtime default_config small_file) =
           (case timeout default_config of None \<Rightarrow> 30000 | Some t \<Rightarrow> if t = 0 then 30000 else t)"
    by blast+
  moreover have "map req_num_predict
        (fst (reviewSingleFile reference_runtime (default_config \<lparr> maxTokens := - 1 \<rparr>) small_file))
       = [- 1]"
    by (simp add: reviewSingleFile_def generateRequest_def Let_def exceedsMaxFileSize_def
        default_config_def small_file_def)
  ultimately show ?thesis
    using a b c by (simp add: default_config_def)
qed

text \<open>
  The claim as stated fails for a configuration with \<^verbatim>\<open>maxTokens\<close> above 2048: with 4096
  configured the request carries 2048.
\<close>

theorem num_predict_capped_counterexample:
  "maxTokens (default_config \<lparr> maxTokens := 4096 \<rparr>) = 4096
   \<and> map req_num_predict
        (fst (reviewSingleFile reference_runtime (default_config \<lparr> maxTokens := 4096 \<rparr>) small_file))
       = [2048]"
  by (simp add: reviewSingleFile_def generateRequest_def Let_def exceedsMaxFileSize_def
      default_config_def small_file_def)

lemma exceedsMaxFileSize_iff:
  "exceedsMaxFileSize config d \<longleftrightarrow>
     (\<exists>n m. fileSize d = Some n \<and> maxFileSize config = Some m \<and> 0 < m \<and> m < n)"
  by (auto simp: exceedsMaxFileSize_def split: option.splits)

text \<open>
  Claim C2, as amended. For a change record whose size is known and exceeds a configured
  limit other than zero, \<^verbatim>\<open>reviewSingleFile\<close> posts no request and returns exactly one
  result, of severity \<^verbatim>\<open>warning\<close>, for that file, whose message names the size and the
  limit; so does \<^verbatim>\<open>reviewChanges\<close> when no pattern rule skips the file; and the review
  command posts no request for it.
\<close>

theorem oversized_file_warning:
  assumes "fileSize d = Some n" and "maxFileSize config = Some m" and "0 < m" and "m < n"
  shows "reviewSingleFile rt config d = ([], Inr [tooLargeResult config d])
       \<and> result_file (tooLargeResult config d) = diff_file d
       \<and> severity (tooLargeResult config d) = SevWarning
       \<and> message (tooLargeResult config d) =
           JString (''File too large for analysis ('' @ show_nat n @ '' bytes, limit: ''
                    @ show_nat m @ '' bytes)'')
       \<and> (shouldSkipFile rt config d = Inr False
            \<longrightarrow> reviewChanges rt config [d] = ([], Inr [tooLargeResult config d]))
       \<and> fst (review_loop rt config [d] ([], [])) = []"
proof -
  have ex: "exceedsMaxFileSize config d"
    using assms by (auto simp: exceedsMaxFileSize_iff)
  then have single: "reviewSingleFile rt config d = ([], Inr [tooLargeResult config d])"
    by (simp add: reviewSingleFile_def)
  have fields: "result_file (tooLargeResult config d) = diff_file d
       \<and> severity (tooLargeResult config d) = SevWarning
       \<and> message (tooLargeResult config d) =
           JString (''File too large for analysis ('' @ show_nat n @ '' bytes, limit: ''
                    @ show_nat m @ '' bytes)'')"
    using assms by (simp add: tooLargeResult_def)
  have changes: "shouldSkipFile rt config d = Inr False
            \<longrightarrow> reviewChanges rt config [d] = ([], Inr [tooLargeResult config d])"
    using single by (simp add: reviewChanges_def)
  have loop: "fst (review_loop rt config [d] ([], [])) = []"
    using ex by simp
  from single fields changes loop show ?thesis by blast
qed

theorem oversized_file_warning_witness:
  "fileSize large_file = Some 600000 \<and> maxFileSize default_config = Some 500000
   \<and> (0 :: nat) < 500000 \<and> (500000 :: nat) < 600000
   \<and> shouldSkipFile reference_runtime default_config large_file = Inr False
   \<and> reviewChanges reference_runtime default_config [large_file] =
       ([], Inr [\<lparr> result_file = ''src/big.js'', severity = SevWarning, line = None,
                   message = JString ''File too large for analysis (600000 bytes, limit: 500000 bytes)'',
                   suggestion = None, category = None \<rparr>])"
  using oversized_file_warning [of large_file 600000 default_config 500000 reference_runtime]
  by (simp add: large_file_def default_config_def shouldSkipFile_def reference_runtime_def
      thenE_def tooLargeResult_def digit_def)

text \<open>
  The claim as stated fails in two places. The review command leaves a file that is too
  large out before it calls \<^verbatim>\<open>reviewChanges\<close>, so what it displays holds no result for
  the file. And with the limit configured as zero the size test is off, and the file is
  sent to the model.
\<close>

theorem oversized_file_counterexample:
  "fileSize large_file = Some 600000 \<and> maxFileSize default_config = Some 500000
   \<and> review_loop reference_runtime default_config [large_file] ([], []) = ([], [])
   \<and> displayResults (snd (review_loop reference_runtime default_config [large_file] ([], []))) = Inr []
   \<and> maxFileSize (default_config \<lparr> maxFileSize := Some 0 \<rparr>) = Some 0
   \<and> fst (reviewSingleFile reference_runtime (default_config \<lparr> maxFileSize := Some 0 \<rparr>) large_file)
       = [generateRequest reference_runtime (default_config \<lparr> maxFileSize := Some 0 \<rparr>) large_file]"
  by (simp add: large_file_def default_config_def exceedsMaxFileSize_def displayResults_def
      reviewSingleFile_def Let_def)

text \<open>
  Claim C10, as amended. Every diff text that contains \<^verbatim>\<open>differ\<close> anywhere yields a change
  record (such a text is not blank) with \<^verbatim>\<open>isBinary\<close> set, in every mode. For this record
  neither \<^verbatim>\<open>reviewSingleFile\<close>, nor \<^verbatim>\<open>reviewChanges\<close>, nor the review command posts a
  request. \<^verbatim>\<open>reviewSingleFile\<close> returns one result: the informational
  \<^verbatim>\<open>Binary file skipped\<close>, unless the file is too large, in which case the size test,
  which comes first, returns its warning.
\<close>

theorem differ_marks_binary:
  assumes "js_includes diffText ''differ''"
  shows "\<exists>d. parseSingleFileDiff fsSize fileName diffText isStaged stats = Some d
           \<and> isBinary d
           \<and> reviewSingleFile rt config d =
               ([], Inr [if exceedsMaxFileSize config d then tooLargeResult config d
                         else binarySkippedResult d])
           \<and> fst (reviewChanges rt config [d]) = []
           \<and> fst (review_loop rt config [d] ([], [])) = []"
proof -
  from assms have "trim diffText \<noteq> []" by (rule differ_not_blank)
  then obtain d where d: "parseSingleFileDiff fsSize fileName diffText isStaged stats = Some d"
    and "isBinary d = (js_includes diffText ''Binary files'' \<or> js_includes diffText ''differ'')"
    using parseSingleFileDiff_Some by blast
  with assms have bin: "isBinary d" by simp
  then have single: "reviewSingleFile rt config d =
      ([], Inr [if exceedsMaxFileSize config d then tooLargeResult config d
                else binarySkippedResult d])"
    by (simp add: reviewSingleFile_def)
  have changes: "fst (reviewChanges rt config [d]) = []"
    using single
    by (cases "shouldSkipFile rt config d") (simp_all add: reviewChanges_def)
  have loop: "fst (review_loop rt config [d] ([], [])) = []"
    using bin by simp
  from d bin single changes loop show ?thesis by blast
qed

theorem differ_marks_binary_witness:
  "js_includes edit_diff ''differ''
   \<and> (\<exists>d. parseSingleFileDiff (\<lambda>p. Some 42) ''src/a.js'' edit_diff False None = Some d
         \<and> isBinary d
         \<and> reviewSingleFile reference_runtime default_config d = ([], Inr [binarySkippedResult d])
         \<and> message (binarySkippedResult d) = JString ''Binary file skipped''
         \<and> severity (binarySkippedResult d) = SevInfo)"
proof -
  have inc: "js_includes edit_diff ''differ''"
    by (simp add: edit_diff_def)
  from differ_marks_binary [OF inc, of "\<lambda>p. Some 42" "''src/a.js''" False None reference_runtime default_config]
  obtain d where d: "parseSingleFileDiff (\<lambda>p. Some 42) ''src/a.js'' edit_diff False None = Some d"
    and bin: "isBinary d"
    and single: "reviewSingleFile reference_runtime default_config d =
      ([], Inr [if exceedsMaxFileSize default_config d then tooLargeResult default_config d
                else binarySkippedResult d])"
    by blast
  from d have "fileSize d = Some 42"
    by (auto simp: parseSingleFileDiff_def Let_def edit_diff_def split: prod.splits if_splits)
  then have "\<not> exceedsMaxFileSize default_config d"
    by (simp add: exceedsMaxFileSize_def default_config_def)
  with single have "reviewSingleFile reference_runtime default_config d = ([], Inr [binarySkippedResult d])"
    by simp
  with inc d bin show ?thesis
    by (auto simp: binarySkippedResult_def)
qed

text \<open>
  The claim as stated fails for a file that is also too large: the result is the warning
  about the size, not \<^verbatim>\<open>Binary file skipped\<close>.
\<close>

theorem differ_large_file_counterexample:
  "js_includes edit_diff ''differ''
   \<and> parseSingleFileDiff (\<lambda>p. Some 600000) ''src/a.js'' edit_diff False None =
       Some \<lparr> diff_file = ''src/a.js'', additions = 2, deletions = 1, changes = edit_diff,
              isNew = False, isDeleted = False, isBinary = True, fileSize = Some 600000 \<rparr>
   \<and> reviewSingleFile reference_runtime default_config
        \<lparr> diff_file = ''src/a.js'', additions = 2, deletions = 1, changes = edit_diff,
          isNew = False, isDeleted = False, isBinary = True, fileSize = Some 600000 \<rparr> =
       ([], Inr [\<lparr> result_file = ''src/a.js'', severity = SevWarning, line = None,
                   message = JString ''File too large for analysis (600000 bytes, limit: 500000 bytes)'',
                   suggestion = None, category = None \<rparr>])"
proof -
  have a: "js_includes edit_diff ''differ''"
    by (simp add: edit_diff_def)
  have b: "parseSingleFileDiff (\<lambda>p. Some 600000) ''src/a.js'' edit_diff False None =
       Some \<lparr> diff_file = ''src/a.js'', additions = 2, deletions = 1, changes = edit_diff,
              isNew = False, isDeleted = False, isBinary = True, fileSize = Some 600000 \<rparr>"
    by (simp add: parseSingleFileDiff_def edit_diff_def trim_def js_space_def Let_def count_line_pair
        numeral_2_eq_2)
  have c: "reviewSingleFile reference_runtime default_config
        \<lparr> diff_file = ''src/a.js'', additions = 2, deletions = 1, changes = edit_diff,
          isNew = False, isDeleted = False, isBinary = True, fileSize = Some 600000 \<rparr> =
       ([], Inr [\<lparr> result_file = ''src/a.js'', severity = SevWarning, line = None,
                   message = JString ''File too large for analysis (600000 bytes, limit: 500000 bytes)'',
                   suggestion = None, category = None \<rparr>])"
    by (simp add: reviewSingleFile_def exceedsMaxFileSize_def default_config_def tooLargeResult_def digit_def)
  from a b c show ?thesis by blast
qed


section \<open>Properties of the response parser\<close>

lemma truncate_loop_no_closer:
  assumes "list_all (\<lambda>c. c \<noteq> CHR ''}'' \<and> c \<noteq> CHR '']'') jsonText"
    and "k \<le> length jsonText"
  shows "truncate_loop parse jsonText k = ''{\"reviews\":[]}''"
  using assms(2)
proof (induction k)
  case 0
  show ?case by simp
next
  case (Suc i)
  then have "jsonText ! i \<in> set jsonText" by simp
  with assms(1) have "jsonText ! i \<noteq> CHR ''}'' \<and> jsonText ! i \<noteq> CHR '']''"
    by (simp add: list_all_iff)
  with Suc show ?case by simp
qed

lemma js_includes_closer:
  "list_all (\<lambda>c. c \<noteq> x) s \<Longrightarrow> \<not> js_includes s [x]"
  by (induction s) auto

lemma truncateToValidJSON_no_closer:
  "list_all (\<lambda>c. c \<noteq> CHR ''}'' \<and> c \<noteq> CHR '']'') jsonText
   \<Longrightarrow> truncateToValidJSON rt jsonText = ''{\"reviews\":[]}''"
  by (simp add: truncateToValidJSON_def truncate_loop_no_closer)

lemma after_closers:
  assumes "list_all (\<lambda>c. c \<noteq> CHR ''}'' \<and> c \<noteq> CHR '']'') jsonText"
  shows "\<not> js_includes (drop n jsonText) ''}''" and "\<not> js_includes (drop n jsonText) '']''"
proof -
  have "list_all (\<lambda>c. c \<noteq> CHR ''}'' \<and> c \<noteq> CHR '']'') (drop n jsonText)"
    using assms by (auto simp: list_all_iff dest: in_set_dropD)
  then have a: "list_all (\<lambda>c. c \<noteq> CHR ''}'') (drop n jsonText)"
    and b: "list_all (\<lambda>c. c \<noteq> CHR '']'') (drop n jsonText)"
    by (simp_all add: list_all_iff)
  from a show "\<not> js_includes (drop n jsonText) ''}''" by (rule js_includes_closer)
  from b show "\<not> js_includes (drop n jsonText) '']''" by (rule js_includes_closer)
qed

lemma fixIncompleteJSON_no_closer:
  assumes "list_all (\<lambda>c. c \<noteq> CHR ''}'' \<and> c \<noteq> CHR '']'') jsonText"
    and "isl (JSON_parse rt jsonText)"
  shows "fixIncompleteJSON rt jsonText = ''{\"reviews\":[]}''"
proof -
  obtain msg where msg: "JSON_parse rt jsonText = Inl msg"
    using assms(2) by (cases "JSON_parse rt jsonText") auto
  have t: "truncateToValidJSON rt jsonText = ''{\"reviews\":[]}''"
    using assms(1) by (rule truncateToValidJSON_no_closer)
  have "fixIncompleteJSON rt jsonText = truncateToValidJSON rt jsonText"
    unfolding fixIncompleteJSON_def Let_def
    by (simp only: msg sum.case after_closers [OF assms(1)] simp_thms if_False if_True if_cancel)
  with t show ?thesis by simp
qed

lemma trim_truncated_reply: "trim truncated_reply = truncated_reply"
  by (simp add: trim_def js_space_def truncated_reply_def)

lemma truncated_reply_no_fence:
  "\<not> js_includes truncated_reply ''```json''" "\<not> js_includes truncated_reply ''```''"
  by (simp_all add: truncated_reply_def)

lemma truncated_reply_brace: "startsWith truncated_reply ''{''"
  by (simp add: truncated_reply_def)

lemma extractJSON_truncated:
  "extractJSON (Some (JString truncated_reply)) = Inr truncated_reply"
  by (simp add: extractJSON_def trim_response_def thenE_def Let_def trim_truncated_reply
      truncated_reply_no_fence truncated_reply_brace)

lemma trim_exact_reply: "trim exact_reply = exact_reply"
  by (simp add: trim_def js_space_def exact_reply_def)

lemma exact_reply_no_fence:
  "\<not> js_includes exact_reply ''```json''" "\<not> js_includes exact_reply ''```''"
  by (simp_all add: exact_reply_def)

lemma exact_reply_brace: "startsWith exact_reply ''{''"
  by (simp add: exact_reply_def)

lemma extractJSON_exact:
  "extractJSON (Some (JString exact_reply)) = Inr exact_reply"
  by (simp add: extractJSON_def trim_response_def thenE_def Let_def trim_exact_reply
      exact_reply_no_fence exact_reply_brace)

text \<open>The extraction on the two wrapped replies.\<close>

lemma trim_empty_reviews: "trim ''{\"reviews\":[]}'' = ''{\"reviews\":[]}''"
  by (simp add: trim_def js_space_def)

lemma trim_fenced_reply: "trim fenced_reply = fenced_reply"
  by (simp add: fenced_reply_def trim_def js_space_def)

lemma fenced_reply_fence: "js_includes fenced_reply ''```json''"
  by (simp add: fenced_reply_def)

lemma match_fence_fenced_reply: "match_fence ''```json'' fenced_reply = Some ''{\"reviews\":[]}''"
  by (simp add: fenced_reply_def js_space_def)

lemma extractJSON_fenced: "extractJSON (Some (JString fenced_reply)) = Inr ''{\"reviews\":[]}''"
  by (simp add: extractJSON_def trim_response_def thenE_def Let_def trim_fenced_reply
      fenced_reply_fence match_fence_fenced_reply trim_empty_reviews)

lemma trim_prose_reply: "trim prose_reply = prose_reply"
  by (simp add: prose_reply_def trim_def js_space_def)

lemma prose_reply_no_fence:
  "\<not> js_includes prose_reply ''```json''" "\<not> js_includes prose_reply ''```''"
  by (simp_all add: prose_reply_def)

lemma prose_reply_start: "\<not> startsWith prose_reply ''{''"
  by (simp add: prose_reply_def)

lemma match_braces_prose_reply: "match_braces prose_reply = Some ''{\"reviews\":[]}''"
  by (simp add: prose_reply_def match_braces_def)

lemma extractJSON_prose: "extractJSON (Some (JString prose_reply)) = Inr ''{\"reviews\":[]}''"
  by (simp add: extractJSON_def trim_response_def thenE_def Let_def trim_prose_reply
      prose_reply_no_fence prose_reply_start match_braces_prose_reply trim_empty_reviews)

lemma json_parse_truncated: "json_parse truncated_reply = Inl ''Unterminated string in JSON''"
  by (simp add: truncated_reply_def json_parse_def json_ws_def is_digit_def simple_escape_def)

lemma json_parse_empty_reviews:
  "json_parse ''{\"reviews\":[]}'' = Inr (JObject [(''reviews'', JArray [])])"
  by (simp add: json_parse_def json_ws_def is_digit_def simple_escape_def)

lemma json_parse_exact:
  "json_parse exact_reply =
     Inr (JObject [(''reviews'', JArray [JObject [(''severity'', JString ''error''),
                                                   (''message'', JString ''x'')]])])"
  by (simp add: exact_reply_def json_parse_def json_ws_def is_digit_def simple_escape_def)

text \<open>
  Claim C3. \<^verbatim>\<open>parseAIResponse\<close> returns a list of results for every argument and every
  behaviour of \<^verbatim>\<open>JSON.parse\<close>: no exception leaves it. On the reply cut off inside a
  string, when \<^verbatim>\<open>JSON.parse\<close> rejects that text (with whatever message) and reads
  \<^verbatim>\<open>{"reviews":[]}\<close> as an object with an empty array, the result is the empty list.
\<close>

theorem parseAIResponse_total:
  "(\<exists>results. parseAIResponse rt fileName response = Inr results)
   \<and> (isl (JSON_parse rt truncated_reply)
        \<and> JSON_parse rt ''{\"reviews\":[]}'' = Inr (JObject [(''reviews'', JArray [])])
      \<longrightarrow> parseAIResponse rt fileName (Some (JString truncated_reply)) = Inr [])"
proof
  show "\<exists>results. parseAIResponse rt fileName response = Inr results"
    by (cases "parseAIResponse_try rt fileName response")
       (simp_all add: parseAIResponse_def try_catch_def)
next
  show "isl (JSON_parse rt truncated_reply)
        \<and> JSON_parse rt ''{\"reviews\":[]}'' = Inr (JObject [(''reviews'', JArray [])])
      \<longrightarrow> parseAIResponse rt fileName (Some (JString truncated_reply)) = Inr []"
  proof
    assume h: "isl (JSON_parse rt truncated_reply)
        \<and> JSON_parse rt ''{\"reviews\":[]}'' = Inr (JObject [(''reviews'', JArray [])])"
    have "list_all (\<lambda>c. c \<noteq> CHR ''}'' \<and> c \<noteq> CHR '']'') truncated_reply"
      by (simp add: truncated_reply_def)
    with h have fixed: "fixIncompleteJSON rt truncated_reply = ''{\"reviews\":[]}''"
      by (simp add: fixIncompleteJSON_no_closer)
    with h have "parseAIResponse_try rt fileName (Some (JString truncated_reply)) = Inr []"
      by (simp add: parseAIResponse_try_def extractJSON_truncated thenE_def get_prop_def)
    then show "parseAIResponse rt fileName (Some (JString truncated_reply)) = Inr []"
      by (simp add: parseAIResponse_def try_catch_def)
  qed
qed

theorem parseAIResponse_total_witness:
  "isl (JSON_parse reference_runtime truncated_reply)
   \<and> JSON_parse reference_runtime ''{\"reviews\":[]}'' = Inr (JObject [(''reviews'', JArray [])])
   \<and> parseAIResponse reference_runtime ''src/a.js'' (Some (JString truncated_reply)) = Inr []"
  using parseAIResponse_total [of reference_runtime "''src/a.js''" "Some (JString truncated_reply)"]
  by (simp add: reference_runtime_def json_parse_truncated json_parse_empty_reviews)

text \<open>
  Claim C7. On the exact text \<^verbatim>\<open>{"reviews":[{"severity":"error","message":"x"}]}\<close>, which
  \<^verbatim>\<open>JSON.parse\<close> reads as the object it denotes, \<^verbatim>\<open>parseAIResponse\<close> returns exactly one
  result, with severity \<^verbatim>\<open>error\<close>, message \<^verbatim>\<open>x\<close>, and \<^verbatim>\<open>line\<close>, \<^verbatim>\<open>suggestion\<close> and
  \<^verbatim>\<open>category\<close> undefined.
\<close>

theorem parseAIResponse_exact:
  assumes "JSON_parse rt exact_reply =
     Inr (JObject [(''reviews'', JArray [JObject [(''severity'', JString ''error''),
                                                   (''message'', JString ''x'')]])])"
  shows "parseAIResponse rt fileName (Some (JString exact_reply)) =
     Inr [\<lparr> result_file = fileName, severity = SevError, line = None, message = JString ''x'',
            suggestion = None, category = None \<rparr>]"
proof -
  from assms have fixed: "fixIncompleteJSON rt exact_reply = exact_reply"
    by (simp add: fixIncompleteJSON_def)
  have one: "toReviewResult fileName (JObject [(''severity'', JString ''error''), (''message'', JString ''x'')]) =
     Inr \<lparr> result_file = fileName, severity = SevError, line = None, message = JString ''x'',
           suggestion = None, category = None \<rparr>"
    by (simp add: toReviewResult_def thenE_def get_prop_def validateSeverity_def message_or_default_def)
  from assms fixed one
  have "parseAIResponse_try rt fileName (Some (JString exact_reply)) =
     Inr [\<lparr> result_file = fileName, severity = SevError, line = None, message = JString ''x'',
            suggestion = None, category = None \<rparr>]"
    by (simp add: parseAIResponse_try_def extractJSON_exact thenE_def get_prop_def)
  then show ?thesis
    by (simp add: parseAIResponse_def try_catch_def)
qed

theorem parseAIResponse_exact_witness:
  "JSON_parse reference_runtime exact_reply =
     Inr (JObject [(''reviews'', JArray [JObject [(''severity'', JString ''error''),
                                                   (''message'', JString ''x'')]])])
   \<and> parseAIResponse reference_runtime ''src/auth.js'' (Some (JString exact_reply)) =
     Inr [\<lparr> result_file = ''src/auth.js'', severity = SevError, line = None, message = JString ''x'',
            suggestion = None, category = None \<rparr>]"
  using parseAIResponse_exact [of reference_runtime "''src/auth.js''"]
  by (simp add: reference_runtime_def json_parse_exact)


section \<open>Properties of the health probe\<close>

lemma model_name_get_prop:
  "model_name m = Some n \<Longrightarrow> get_prop (Some m) ''name'' = Inr (Some (JString n))"
  by (auto simp: model_name_def get_prop_def split: json.splits option.splits)

lemma some_exn_names:
  assumes "those (map model_name ms) = Some names"
  shows "some_exn (\<lambda>model. thenE (get_prop (Some model) ''name'') (\<lambda>name. name_includes name base)) ms
           = Inr (list_ex (\<lambda>n. js_includes n base) names)"
  using assms
proof (induction ms arbitrary: names)
  case Nil
  then show ?case by simp
next
  case (Cons m ms)
  then obtain n ns where n: "model_name m = Some n" and ns: "those (map model_name ms) = Some ns"
    and names: "names = n # ns"
    by (auto split: option.splits)
  from Cons.IH [OF ns] n names show ?case
    by (simp add: model_name_get_prop thenE_def name_includes_def)
qed

lemma map_exn_names:
  assumes "those (map model_name ms) = Some names"
  shows "map_exn (\<lambda>m. get_prop (Some m) ''name'') ms = Inr (map (\<lambda>n. Some (JString n)) names)"
  using assms
proof (induction ms arbitrary: names)
  case Nil
  then show ?case by simp
next
  case (Cons m ms)
  then obtain n ns where n: "model_name m = Some n" and ns: "those (map model_name ms) = Some ns"
    and names: "names = n # ns"
    by (auto split: option.splits)
  from Cons.IH [OF ns] n names show ?case
    by (simp add: model_name_get_prop thenE_def)
qed

lemma join_element_string: "join_element (Some (JString n)) = n"
  by (simp add: join_element_def)

lemma reported_names_models:
  assumes "reported_names data = Some names"
  shows "\<exists>ms. get_prop (Some data) ''models'' = Inr (Some (JArray ms))
              \<and> those (map model_name ms) = Some names"
  using assms
  by (auto simp: reported_names_def get_prop_def split: json.splits option.splits)

lemma offline_get:
  "axios_get offline_runtime url ms =
     Inl (Exn AxiosError (Some ''ECONNREFUSED'') ''connect ECONNREFUSED 127.0.0.1:11434'')"
  by (simp add: offline_runtime_def)

lemma reference_get:
  "axios_get reference_runtime url ms =
     Inr (Some (JObject [(''models'', JArray [JObject [(''name'', JString ''codellama:7b-instruct'')]])]))"
  by (simp add: reference_runtime_def)

lemma reference_names:
  "reported_names (JObject [(''models'', JArray [JObject [(''name'', JString ''codellama:7b-instruct'')]])])
     = Some [''codellama:7b-instruct'']"
  by (simp add: reported_names_def model_name_def)

lemma baseName_default: "baseName default_config = ''codellama''"
  by (simp add: baseName_def default_config_def)

lemma baseName_mistral: "baseName (default_config \<lparr> modelName := ''mistral:7b'' \<rparr>) = ''mistral''"
  by (simp add: baseName_def default_config_def)

lemma baseName_llama: "baseName (default_config \<lparr> modelName := ''llama:7b'' \<rparr>) = ''llama''"
  by (simp add: baseName_def default_config_def)

text \<open>
  Claim C5, as amended. When the request to the model-listing endpoint fails,
  \<^verbatim>\<open>checkHealth\<close> returns \<^verbatim>\<open>isHealthy = false\<close> with the failure in its error text. When
  the endpoint answers with a payload that lists models by name, \<^verbatim>\<open>checkHealth\<close> returns
  \<^verbatim>\<open>isHealthy = true\<close> exactly when some reported name contains the base name of the
  configured identifier (the part before the first \<^verbatim>\<open>:\<close>) as a substring, at any
  position, and otherwise \<^verbatim>\<open>isHealthy = false\<close> with an error text that lists the reported
  names.
\<close>

theorem checkHealth_substring:
  "(axios_get rt (modelUrl config @ ''/api/tags'') (or_default (timeout config) 5000) = Inl e
      \<longrightarrow> checkHealth rt config =
            Inr \<lparr> isHealthy = False,
                  error = Some (''Ollama server unavailable: '' @ exn_message e) \<rparr>)
   \<and> (axios_get rt (modelUrl config @ ''/api/tags'') (or_default (timeout config) 5000) = Inr (Some data)
        \<and> reported_names data = Some names
      \<longrightarrow> checkHealth rt config =
            Inr (if list_ex (\<lambda>n. js_includes n (baseName config)) names
                 then \<lparr> isHealthy = True, error = None \<rparr>
                 else \<lparr> isHealthy = False,
                        error = Some (''Model '' @ modelName config
                                      @ '' not found. Available models: '' @ join names '', '') \<rparr>))"
proof (intro conjI impI)
  assume "axios_get rt (modelUrl config @ ''/api/tags'') (or_default (timeout config) 5000) = Inl e"
  then show "checkHealth rt config =
            Inr \<lparr> isHealthy = False,
                  error = Some (''Ollama server unavailable: '' @ exn_message e) \<rparr>"
    by (simp add: checkHealth_def thenE_def try_catch_def)
next
  assume h: "axios_get rt (modelUrl config @ ''/api/tags'') (or_default (timeout config) 5000) = Inr (Some data)
        \<and> reported_names data = Some names"
  then obtain ms where models: "get_prop (Some data) ''models'' = Inr (Some (JArray ms))"
    and ms: "those (map model_name ms) = Some names"
    using reported_names_models by blast
  from h models
  have "checkHealth rt config =
      try_catch
        (thenE (some_exn (\<lambda>model. thenE (get_prop (Some model) ''name'')
                            (\<lambda>name. name_includes name (baseName config))) ms)
           (\<lambda>hasModel.
              if \<not> hasModel then
                thenE (map_exn (\<lambda>m. get_prop (Some m) ''name'') ms)
                  (\<lambda>names. Inr \<lparr> isHealthy = False,
                     error = Some (''Model '' @ modelName config
                       @ '' not found. Available models: ''
                       @ join (map join_element names) '', '') \<rparr>)
              else Inr \<lparr> isHealthy = True, error = None \<rparr>))
        (\<lambda>error. Inr \<lparr> isHealthy = False,
                       error = Some (''Ollama server unavailable: '' @ exn_message error) \<rparr>)"
    by (simp add: checkHealth_def thenE_def Let_def)
  then have "checkHealth rt config =
      try_catch
        (thenE (Inr (list_ex (\<lambda>n. js_includes n (baseName config)) names))
           (\<lambda>hasModel.
              if \<not> hasModel then
                thenE (Inr (map (\<lambda>n. Some (JString n)) names))
                  (\<lambda>names. Inr \<lparr> isHealthy = False,
                     error = Some (''Model '' @ modelName config
                       @ '' not found. Available models: ''
                       @ join (map join_element names) '', '') \<rparr>)
              else Inr \<lparr> isHealthy = True, error = None \<rparr>))
        (\<lambda>error. Inr \<lparr> isHealthy = False,
                       error = Some (''Ollama server unavailable: '' @ exn_message error) \<rparr>)"
    by (simp only: some_exn_names [OF ms] map_exn_names [OF ms])
  then show "checkHealth rt config =
            Inr (if list_ex (\<lambda>n. js_includes n (baseName config)) names
                 then \<lparr> isHealthy = True, error = None \<rparr>
                 else \<lparr> isHealthy = False,
                        error = Some (''Model '' @ modelName config
                                      @ '' not found. Available models: '' @ join names '', '') \<rparr>)"
    by (simp add: join_element_string comp_def thenE_def try_catch_def)
qed

theorem checkHealth_substring_witness:
  "axios_get offline_runtime (modelUrl default_config @ ''/api/tags'')
       (or_default (timeout default_config) 5000) =
     Inl (Exn AxiosError (Some ''ECONNREFUSED'') ''connect ECONNREFUSED 127.0.0.1:11434'')
   \<and> checkHealth offline_runtime default_config =
       Inr \<lparr> isHealthy = False,
             error = Some ''Ollama server unavailable: connect ECONNREFUSED 127.0.0.1:11434'' \<rparr>
   \<and> axios_get reference_runtime (modelUrl default_config @ ''/api/tags'')
       (or_default (timeout default_config) 5000) =
     Inr (Some (JObject [(''models'', JArray [JObject [(''name'', JString ''codellama:7b-instruct'')]])]))
   \<and> reported_names (JObject [(''models'', JArray [JObject [(''name'', JString ''codellama:7b-instruct'')]])])
       = Some [''codellama:7b-instruct'']
   \<and> checkHealth reference_runtime default_config = Inr \<lparr> isHealthy = True, error = None \<rparr>
   \<and> checkHealth reference_runtime (default_config \<lparr> modelName := ''mistral:7b'' \<rparr>) =
       Inr \<lparr> isHealthy = False,
             error = Some ''Model mistral:7b not found. Available models: codellama:7b-instruct'' \<rparr>"
proof -
  have off: "checkHealth offline_runtime default_config =
       Inr \<lparr> isHealthy = False,
             error = Some ''Ollama server unavailable: connect ECONNREFUSED 127.0.0.1:11434'' \<rparr>"
    using checkHealth_substring [of offline_runtime default_config
        "Exn AxiosError (Some ''ECONNREFUSED'') ''connect ECONNREFUSED 127.0.0.1:11434''"]
    by (simp add: offline_get)
  have found: "checkHealth reference_runtime default_config = Inr \<lparr> isHealthy = True, error = None \<rparr>"
    using checkHealth_substring [of reference_runtime default_config _
        "JObject [(''models'', JArray [JObject [(''name'', JString ''codellama:7b-instruct'')]])]"
        "[''codellama:7b-instruct'']"]
    by (simp add: reference_get reference_names baseName_default)
  have missing: "checkHealth reference_runtime (default_config \<lparr> modelName := ''mistral:7b'' \<rparr>) =
       Inr \<lparr> isHealthy = False,
             error = Some ''Model mistral:7b not found. Available models: codellama:7b-instruct'' \<rparr>"
    using checkHealth_substring [of reference_runtime "default_config \<lparr> modelName := ''mistral:7b'' \<rparr>" _
        "JObject [(''models'', JArray [JObject [(''name'', JString ''codellama:7b-instruct'')]])]"
        "[''codellama:7b-instruct'']"]
    by (simp add: reference_get reference_names baseName_mistral)
  from off found missing show ?thesis
    by (simp add: offline_get reference_get reference_names)
qed

text \<open>
  The claim as stated fails where the base name occurs inside a reported name without
  being its prefix: with \<^verbatim>\<open>llama:7b\<close> configured and only \<^verbatim>\<open>codellama:7b-instruct\<close>
  reported, the probe is healthy.
\<close>

theorem checkHealth_substring_counterexample:
  "baseName (default_config \<lparr> modelName := ''llama:7b'' \<rparr>) = ''llama''
   \<and> axios_get reference_runtime (modelUrl (default_config \<lparr> modelName := ''llama:7b'' \<rparr>) @ ''/api/tags'')
       (or_default (timeout (default_config \<lparr> modelName := ''llama:7b'' \<rparr>)) 5000) =
     Inr (Some (JObject [(''models'', JArray [JObject [(''name'', JString ''codellama:7b-instruct'')]])]))
   \<and> \<not> startsWith ''codellama:7b-instruct'' ''llama''
   \<and> checkHealth reference_runtime (default_config \<lparr> modelName := ''llama:7b'' \<rparr>) =
       Inr \<lparr> isHealthy = True, error = None \<rparr>"
proof -
  have "checkHealth reference_runtime (default_config \<lparr> modelName := ''llama:7b'' \<rparr>) =
       Inr \<lparr> isHealthy = True, error = None \<rparr>"
    by (simp add: checkHealth_def reference_get thenE_def try_catch_def get_prop_def
        name_includes_def baseName_llama)
  then show ?thesis
    by (simp add: reference_get baseName_llama)
qed

text \<open>
  Claim C9. For every configuration and every behaviour of the endpoint (a rejected
  request, a missing payload, a payload of any shape) \<^verbatim>\<open>checkHealth\<close> returns a health
  value and no exception leaves it; when the request is rejected (connection refused,
  timeout), the health value is unhealthy and its error text carries the message of the
  failure; when the payload is missing, the health value is unhealthy with a cause.
\<close>

theorem checkHealth_never_throws:
  "(\<exists>health. checkHealth rt config = Inr health)
   \<and> (axios_get rt (modelUrl config @ ''/api/tags'') (or_default (timeout config) 5000) = Inl e
      \<longrightarrow> checkHealth rt config =
            Inr \<lparr> isHealthy = False,
                  error = Some (''Ollama server unavailable: '' @ exn_message e) \<rparr>)
   \<and> (axios_get rt (modelUrl config @ ''/api/tags'') (or_default (timeout config) 5000) = Inr None
      \<longrightarrow> (\<exists>cause. checkHealth rt config = Inr \<lparr> isHealthy = False, error = Some cause \<rparr>))"
proof (intro conjI impI)
  show "\<exists>health. checkHealth rt config = Inr health"
    unfolding checkHealth_def try_catch_def
    by (simp split: sum.split)
next
  assume "axios_get rt (modelUrl config @ ''/api/tags'') (or_default (timeout config) 5000) = Inl e"
  then show "checkHealth rt config =
            Inr \<lparr> isHealthy = False,
                  error = Some (''Ollama server unavailable: '' @ exn_message e) \<rparr>"
    by (simp add: checkHealth_def thenE_def try_catch_def)
next
  assume "axios_get rt (modelUrl config @ ''/api/tags'') (or_default (timeout config) 5000) = Inr None"
  then show "\<exists>cause. checkHealth rt config = Inr \<lparr> isHealthy = False, error = Some cause \<rparr>"
    by (simp add: checkHealth_def thenE_def try_catch_def get_prop_def)
qed

theorem checkHealth_never_throws_witness:
  "axios_get offline_runtime (modelUrl default_config @ ''/api/tags'')
       (or_default (timeout default_config) 5000) =
     Inl (Exn AxiosError (Some ''ECONNREFUSED'') ''connect ECONNREFUSED 127.0.0.1:11434'')
   \<and> checkHealth offline_runtime default_config =
       Inr \<lparr> isHealthy = False,
             error = Some ''Ollama server unavailable: connect ECONNREFUSED 127.0.0.1:11434'' \<rparr>"
  using checkHealth_never_throws [of offline_runtime default_config
      "Exn AxiosError (Some ''ECONNREFUSED'') ''connect ECONNREFUSED 127.0.0.1:11434''"]
  by (simp add: offline_get)


section \<open>Properties of the report\<close>

lemma set_first_seen: "set (first_seen xs) = set xs"
proof (induction xs rule: first_seen.induct)
  case 1
  show ?case by simp
next
  case (2 x xs)
  then show ?case by auto
qed

lemma set_own_absent: "k \<notin> fst ` set ps \<Longrightarrow> set_own k v ps = ps @ [(k, v)]"
  by (induction ps) auto

lemma set_own_present:
  "distinct (map fst ps) \<Longrightarrow> k \<in> fst ` set ps \<Longrightarrow>
   set_own k v ps = map (\<lambda>p. if fst p = k then (k, v) else p) ps"
proof (induction ps)
  case Nil
  then show ?case by simp
next
  case (Cons p ps)
  obtain a b where p: "p = (a, b)" by (cases p)
  show ?case
  proof (cases "a = k")
    case True
    with Cons.prems p have "k \<notin> fst ` set ps" by auto
    then have "map (\<lambda>p. if fst p = k then (k, v) else p) ps = ps"
      by (induction ps) auto
    with True p show ?thesis by simp
  next
    case False
    with Cons p show ?thesis by auto
  qed
qed

lemma groups_of_Nil: "groups_of [] = []"
  by (simp add: groups_of_def)

lemma groups_of_Cons:
  "groups_of (r # rs) =
     (result_file r, r # filter (\<lambda>x. result_file x = result_file r) rs)
     # groups_of (filter (\<lambda>x. result_file x \<noteq> result_file r) rs)"
proof -
  let ?f = "result_file r"
  let ?rest = "filter (\<lambda>x. result_file x \<noteq> ?f) rs"
  have names: "filter (\<lambda>y. y \<noteq> ?f) (map result_file rs) = map result_file ?rest"
    by (simp add: filter_map comp_def)
  have "map (\<lambda>f. (f, filter (\<lambda>x. result_file x = f) (r # rs))) (first_seen (map result_file ?rest))
      = map (\<lambda>f. (f, filter (\<lambda>x. result_file x = f) ?rest)) (first_seen (map result_file ?rest))"
  proof (rule map_cong [OF refl])
    fix f assume "f \<in> set (first_seen (map result_file ?rest))"
    then have "f \<noteq> ?f" by (auto simp: set_first_seen)
    then have "filter (\<lambda>x. result_file x = f) (r # rs) = filter (\<lambda>x. result_file x = f) ?rest"
      by (auto intro: filter_cong)
    then show "(f, filter (\<lambda>x. result_file x = f) (r # rs)) = (f, filter (\<lambda>x. result_file x = f) ?rest)"
      by simp
  qed
  then show ?thesis
    by (simp add: groups_of_def names)
qed

lemma reduce_groupByFile_step:
  assumes "distinct (map fst acc)"
    and "list_all (\<lambda>r. result_file r \<notin> set object_prototype_keys) rs"
  shows "reduce_exn groupByFile_step rs acc =
     Inr (map (\<lambda>p. (fst p, snd p @ filter (\<lambda>r. result_file r = fst p) rs)) acc
          @ groups_of (filter (\<lambda>r. result_file r \<notin> fst ` set acc) rs))"
  using assms
proof (induction rs arbitrary: acc)
  case Nil
  then show ?case by (simp add: groups_of_Nil)
next
  case (Cons r rs)
  let ?f = "result_file r"
  from Cons.prems have rest_ok: "list_all (\<lambda>r. result_file r \<notin> set object_prototype_keys) rs"
    and f_ok: "?f \<notin> set object_prototype_keys"
    by simp_all
  show ?case
  proof (cases "map_of acc ?f")
    case None
    then have absent: "?f \<notin> fst ` set acc"
      by (simp add: map_of_eq_None_iff)
    let ?acc' = "acc @ [(?f, [r])]"
    have step: "groupByFile_step acc r = Inr ?acc'"
      using None f_ok absent by (simp add: groupByFile_step_def set_own_absent)
    have dist: "distinct (map fst ?acc')"
      using Cons.prems(1) absent by simp
    have keys: "fst ` set ?acc' = insert ?f (fst ` set acc)"
      by auto
    have unchanged: "map (\<lambda>p. (fst p, snd p @ filter (\<lambda>x. result_file x = fst p) (r # rs))) acc
        = map (\<lambda>p. (fst p, snd p @ filter (\<lambda>x. result_file x = fst p) rs)) acc"
      using absent by (intro map_cong [OF refl]) auto
    have f1: "filter (\<lambda>x. result_file x = ?f) (filter (\<lambda>x. result_file x \<notin> fst ` set acc) rs)
        = filter (\<lambda>x. result_file x = ?f) rs"
      unfolding filter_filter using absent by (intro filter_cong refl) force
    have f2: "filter (\<lambda>x. result_file x \<noteq> ?f) (filter (\<lambda>x. result_file x \<notin> fst ` set acc) rs)
        = filter (\<lambda>x. result_file x \<notin> insert ?f (fst ` set acc)) rs"
      unfolding filter_filter by (intro filter_cong refl) auto
    have "reduce_exn groupByFile_step (r # rs) acc = reduce_exn groupByFile_step rs ?acc'"
      using step by (simp add: thenE_def)
    also have "\<dots> = Inr (map (\<lambda>p. (fst p, snd p @ filter (\<lambda>x. result_file x = fst p) rs)) ?acc'
          @ groups_of (filter (\<lambda>x. result_file x \<notin> fst ` set ?acc') rs))"
      using Cons.IH [OF dist rest_ok] .
    also have "\<dots> = Inr (map (\<lambda>p. (fst p, snd p @ filter (\<lambda>x. result_file x = fst p) (r # rs))) acc
          @ groups_of (filter (\<lambda>x. result_file x \<notin> fst ` set acc) (r # rs)))"
    proof -
      have lhs: "map (\<lambda>p. (fst p, snd p @ filter (\<lambda>x. result_file x = fst p) rs)) ?acc'
          = map (\<lambda>p. (fst p, snd p @ filter (\<lambda>x. result_file x = fst p) (r # rs))) acc
            @ [(?f, r # filter (\<lambda>x. result_file x = ?f) rs)]"
        using unchanged by simp
      have "filter (\<lambda>x. result_file x \<notin> fst ` set acc) (r # rs)
          = r # filter (\<lambda>x. result_file x \<notin> fst ` set acc) rs"
        using absent by simp
      then have rhs: "groups_of (filter (\<lambda>x. result_file x \<notin> fst ` set acc) (r # rs))
          = (?f, r # filter (\<lambda>x. result_file x = ?f) rs)
            # groups_of (filter (\<lambda>x. result_file x \<notin> insert ?f (fst ` set acc)) rs)"
        by (simp only: groups_of_Cons f1 f2)
      show ?thesis
        by (simp only: lhs rhs keys append_assoc append_Cons append_Nil)
    qed
    finally show ?thesis .
  next
    case (Some v)
    then have present: "?f \<in> fst ` set acc"
      by (metis map_of_eq_None_iff option.distinct(1))
    let ?acc' = "map (\<lambda>p. if fst p = ?f then (?f, v @ [r]) else p) acc"
    have step: "groupByFile_step acc r = Inr ?acc'"
      using Some Cons.prems(1) present by (simp add: groupByFile_step_def set_own_present)
    have keys_map: "map fst ?acc' = map fst acc"
      by (induction acc) auto
    have dist: "distinct (map fst ?acc')"
      unfolding keys_map using Cons.prems(1) .
    have "set (map fst ?acc') = set (map fst acc)"
      by (simp only: keys_map)
    then have keys: "fst ` set ?acc' = fst ` set acc"
      by (simp only: set_map)
    have changed: "map (\<lambda>p. (fst p, snd p @ filter (\<lambda>x. result_file x = fst p) rs)) ?acc'
        = map (\<lambda>p. (fst p, snd p @ filter (\<lambda>x. result_file x = fst p) (r # rs))) acc"
    proof -
      have "\<And>p. p \<in> set acc \<Longrightarrow> fst p = ?f \<Longrightarrow> snd p = v"
        using Some Cons.prems(1) by (metis map_of_is_SomeI option.inject prod.collapse)
      then show ?thesis
        by (auto simp: comp_def intro!: map_cong)
    qed
    have "reduce_exn groupByFile_step (r # rs) acc = reduce_exn groupByFile_step rs ?acc'"
      using step by (simp add: thenE_def)
    also have "\<dots> = Inr (map (\<lambda>p. (fst p, snd p @ filter (\<lambda>x. result_file x = fst p) rs)) ?acc'
          @ groups_of (filter (\<lambda>x. result_file x \<notin> fst ` set ?acc') rs))"
      using Cons.IH [OF dist rest_ok] .
    also have "\<dots> = Inr (map (\<lambda>p. (fst p, snd p @ filter (\<lambda>x. result_file x = fst p) (r # rs))) acc
          @ groups_of (filter (\<lambda>x. result_file x \<notin> fst ` set acc) (r # rs)))"
      using present by (simp only: keys changed) simp
    finally show ?thesis .
  qed
qed

lemma groupByFile_groups:
  assumes "list_all (\<lambda>r. result_file r \<notin> set object_prototype_keys) results"
  shows "groupByFile results = Inr (groups_of results)"
  using reduce_groupByFile_step [of "[]" results] assms
  by (simp add: groupByFile_def)

lemma insort_key_keyed:
  "insort_key (\<lambda>p. h (fst p)) (k, g k) (map (\<lambda>f. (f, g f)) ks)
     = map (\<lambda>f. (f, g f)) (insort_key h k ks)"
  by (induction ks) simp_all

lemma sort_key_keyed:
  "sort_key (\<lambda>p. h (fst p)) (map (\<lambda>f. (f, g f)) ks) = map (\<lambda>f. (f, g f)) (sort_key h ks)"
  by (induction ks) (simp_all add: insort_key_keyed)

lemma filter_keyed:
  "filter (\<lambda>p. P (fst p)) (map (\<lambda>f. (f, g f)) ks) = map (\<lambda>f. (f, g f)) (filter P ks)"
  by (induction ks) simp_all

lemma Object_entries_keyed:
  "Object_entries (map (\<lambda>f. (f, g f)) ks) = map (\<lambda>f. (f, g f)) (section_order ks)"
proof -
  have a: "filter (\<lambda>p. is_array_index (fst p)) (map (\<lambda>f. (f, g f)) ks)
      = map (\<lambda>f. (f, g f)) (filter is_array_index ks)"
    by (rule filter_keyed)
  have b: "filter (\<lambda>p. \<not> is_array_index (fst p)) (map (\<lambda>f. (f, g f)) ks)
      = map (\<lambda>f. (f, g f)) (filter (\<lambda>name. \<not> is_array_index name) ks)"
    by (rule filter_keyed [of "\<lambda>name. \<not> is_array_index name"])
  show ?thesis
    by (simp only: Object_entries_def section_order_def a b sort_key_keyed map_append)
qed

lemma section_order_no_index:
  "list_all (\<lambda>name. \<not> is_array_index name) names \<Longrightarrow> section_order names = names"
proof -
  assume "list_all (\<lambda>name. \<not> is_array_index name) names"
  then have "filter is_array_index names = []"
    and "filter (\<lambda>name. \<not> is_array_index name) names = names"
    by (simp_all add: list_all_iff filter_empty_conv filter_id_conv)
  then show ?thesis
    by (simp add: section_order_def)
qed

lemma not_index_src: "\<not> is_array_index (CHR ''s'' # cs)"
  by (simp add: is_array_index_def)

lemma not_index_b: "\<not> is_array_index ''b.js''"
  by (simp add: is_array_index_def)

lemma index_1: "is_array_index ''1''"
  by (simp add: is_array_index_def index_value_def digit_value_def)

text \<open>
  A file path that is a property name inherited from \<^verbatim>\<open>Object.prototype\<close> makes
  \<^verbatim>\<open>groupByFile\<close>, and with it \<^verbatim>\<open>displayResults\<close>, throw.
\<close>

lemma displayResults_inherited_name:
  "displayResults [finding ''constructor'' SevInfo ''typo''] =
     Inl (Exn TypeError None ''acc[result.file].push is not a function'')"
  by (simp add: displayResults_def groupByFile_def groupByFile_step_def finding_def
      object_prototype_keys_def thenE_def)

text \<open>
  Claim C8, as amended. For every list of results none of whose file paths is a property
  name inherited from \<^verbatim>\<open>Object.prototype\<close>, the report lists one section per file path:
  first the paths that are array indices, in ascending numeric order, then the other
  paths in first-seen order (so when no path is an array index, all sections are in
  first-seen order). The section of a file holds exactly the results of that file,
  ordered by the severity rank error, warning, info; results of equal severity keep
  their order of arrival.
\<close>

theorem displayResults_order:
  assumes "list_all (\<lambda>r. result_file r \<notin> set object_prototype_keys) results"
  shows "displayResults results =
           Inr (map (\<lambda>f. (f, sort_key (\<lambda>r. severityOrder (severity r))
                                (filter (\<lambda>r. result_file r = f) results)))
                    (section_order (first_seen (map result_file results))))
       \<and> (list_all (\<lambda>r. \<not> is_array_index (result_file r)) results
            \<longrightarrow> section_order (first_seen (map result_file results))
                  = first_seen (map result_file results))
       \<and> sorted (map (\<lambda>r. severityOrder (severity r))
                   (sort_key (\<lambda>r. severityOrder (severity r)) (filter (\<lambda>r. result_file r = f) results)))
       \<and> filter (\<lambda>r. severityOrder (severity r) = k)
            (sort_key (\<lambda>r. severityOrder (severity r)) (filter (\<lambda>r. result_file r = f) results))
          = filter (\<lambda>r. severityOrder (severity r) = k) (filter (\<lambda>r. result_file r = f) results)"
proof (intro conjI impI)
  show "displayResults results =
           Inr (map (\<lambda>f. (f, sort_key (\<lambda>r. severityOrder (severity r))
                                (filter (\<lambda>r. result_file r = f) results)))
                    (section_order (first_seen (map result_file results))))"
  proof (cases "results = []")
    case True
    then show ?thesis
      by (simp add: displayResults_def section_order_def)
  next
    case False
    have "Object_entries (groups_of results)
        = map (\<lambda>f. (f, filter (\<lambda>r. result_file r = f) results))
              (section_order (first_seen (map result_file results)))"
      unfolding groups_of_def by (rule Object_entries_keyed)
    with False assms show ?thesis
      by (simp add: displayResults_def groupByFile_groups thenE_def comp_def)
  qed
next
  assume "list_all (\<lambda>r. \<not> is_array_index (result_file r)) results"
  then have "list_all (\<lambda>name. \<not> is_array_index name) (first_seen (map result_file results))"
    by (auto simp: list_all_iff set_first_seen)
  then show "section_order (first_seen (map result_file results)) = first_seen (map result_file results)"
    by (rule section_order_no_index)
next
  show "sorted (map (\<lambda>r. severityOrder (severity r))
                   (sort_key (\<lambda>r. severityOrder (severity r)) (filter (\<lambda>r. result_file r = f) results)))"
    by (rule sorted_sort_key)
next
  show "filter (\<lambda>r. severityOrder (severity r) = k)
            (sort_key (\<lambda>r. severityOrder (severity r)) (filter (\<lambda>r. result_file r = f) results))
          = filter (\<lambda>r. severityOrder (severity r) = k) (filter (\<lambda>r. result_file r = f) results)"
    by (rule sort_key_stable)
qed

theorem displayResults_order_witness:
  "list_all (\<lambda>r. result_file r \<notin> set object_prototype_keys) mixed_results
   \<and> list_all (\<lambda>r. \<not> is_array_index (result_file r)) mixed_results
   \<and> displayResults mixed_results =
       Inr [(''src/b.js'', [finding ''src/b.js'' SevError ''unsafe eval'',
                            finding ''src/b.js'' SevInfo ''unused variable'',
                            finding ''src/b.js'' SevInfo ''long line'']),
            (''src/a.js'', [finding ''src/a.js'' SevWarning ''slow loop''])]"
proof -
  have a: "list_all (\<lambda>r. result_file r \<notin> set object_prototype_keys) mixed_results"
    by (simp add: mixed_results_def finding_def object_prototype_keys_def)
  have b: "list_all (\<lambda>r. \<not> is_array_index (result_file r)) mixed_results"
    by (simp add: mixed_results_def finding_def not_index_src)
  have names: "first_seen (map result_file mixed_results) = [''src/b.js'', ''src/a.js'']"
    by (simp add: mixed_results_def finding_def)
  from displayResults_order [OF a] b
  have "displayResults mixed_results =
           Inr (map (\<lambda>f. (f, sort_key (\<lambda>r. severityOrder (severity r))
                                (filter (\<lambda>r. result_file r = f) mixed_results)))
                    (first_seen (map result_file mixed_results)))"
    by simp
  then have "displayResults mixed_results =
       Inr [(''src/b.js'', [finding ''src/b.js'' SevError ''unsafe eval'',
                            finding ''src/b.js'' SevInfo ''unused variable'',
                            finding ''src/b.js'' SevInfo ''long line'']),
            (''src/a.js'', [finding ''src/a.js'' SevWarning ''slow loop''])]"
    unfolding names by (simp add: mixed_results_def finding_def)
  with a b show ?thesis by blast
qed

text \<open>
  The claim as stated fails for a file path that is an array index: the section of the
  file named \<^verbatim>\<open>1\<close> comes first although the file was seen second.
\<close>

theorem displayResults_order_counterexample:
  "first_seen (map result_file numbered_results) = [''b.js'', ''1'']
   \<and> displayResults numbered_results =
       Inr [(''1'', [finding ''1'' SevInfo ''typo'']),
            (''b.js'', [finding ''b.js'' SevInfo ''long line''])]"
proof -
  have names: "first_seen (map result_file numbered_results) = [''b.js'', ''1'']"
    by (simp add: numbered_results_def finding_def)
  have grouped: "groupByFile numbered_results =
      Inr [(''b.js'', [finding ''b.js'' SevInfo ''long line'']), (''1'', [finding ''1'' SevInfo ''typo''])]"
    by (simp add: groupByFile_def groupByFile_step_def numbered_results_def finding_def
        object_prototype_keys_def thenE_def)
  have entries: "Object_entries
        [(''b.js'', [finding ''b.js'' SevInfo ''long line'']), (''1'', [finding ''1'' SevInfo ''typo''])]
      = [(''1'', [finding ''1'' SevInfo ''typo'']), (''b.js'', [finding ''b.js'' SevInfo ''long line''])]"
    by (simp add: Object_entries_def not_index_b index_1)
  have "displayResults numbered_results =
       Inr [(''1'', [finding ''1'' SevInfo ''typo'']),
            (''b.js'', [finding ''b.js'' SevInfo ''long line''])]"
    by (simp add: displayResults_def grouped entries thenE_def)
       (simp add: numbered_results_def finding_def)
  with names show ?thesis by blast
qed


end
